theory Spec2Isabelle
  imports Complex_Main
begin

section \<open>Python values used by pi-status-server.py\<close>

text \<open>
  A Python \<^verbatim>\<open>str\<close> that comes from outside the program (the decoded output of a
  tool run with \<^verbatim>\<open>text=True\<close>) is a list of Unicode code points; \<^verbatim>\<open>bytes\<close>, the
  request path (decoded by http.server as ISO-8859-1) and the program's own ASCII
  literals are lists of 8-bit characters.
\<close>

type_synonym pystr = "nat list"
type_synonym bytes = string

definition py :: "string \<Rightarrow> pystr" where
  "py s = map of_char s"

text \<open>The code points for which \<^verbatim>\<open>str.isspace\<close> holds; \<^verbatim>\<open>str.strip()\<close> removes them.\<close>

definition isspace :: "nat \<Rightarrow> bool" where
  "isspace c =
     ((9 \<le> c \<and> c \<le> 13) \<or> (28 \<le> c \<and> c \<le> 32) \<or> c = 133 \<or> c = 160 \<or> c = 5760 \<or>
      (8192 \<le> c \<and> c \<le> 8202) \<or> c = 8232 \<or> c = 8233 \<or> c = 8239 \<or> c = 8287 \<or>
      c = 12288)"

definition strip :: "pystr \<Rightarrow> pystr" where
  "strip s = rev (dropWhile isspace (rev (dropWhile isspace s)))"

text \<open>\<^verbatim>\<open>s.split(sep)\<close> for a one-character separator: never the empty list.\<close>

fun split_on :: "nat \<Rightarrow> pystr \<Rightarrow> pystr list" where
  "split_on sep [] = [[]]"
| "split_on sep (c # cs) =
     (if c = sep then [] # split_on sep cs
      else (case split_on sep cs of
              [] \<Rightarrow> [[c]]
            | l # ls \<Rightarrow> (c # l) # ls))"

text \<open>Decimal rendering of an \<^verbatim>\<open>int\<close>, as an f-string field and \<^verbatim>\<open>json.dumps\<close> print it;
  \<open>digit\<close> also serves the lower-case hexadecimal of a JSON escape.\<close>

definition digit :: "nat \<Rightarrow> char" where
  "digit n = ''0123456789abcdef'' ! n"

fun str_nat :: "nat \<Rightarrow> string" where
  "str_nat n =
     (if n < 10 then [digit n]
      else str_nat (n div 10) @ [digit (n mod 10)])"

definition str_int :: "int \<Rightarrow> string" where
  "str_int i = (if i < 0 then CHR ''-'' # str_nat (nat (- i)) else str_nat (nat i))"

subsection \<open>Exceptions\<close>

text \<open>
  The exceptions the modelled calls raise; each is a subclass of \<^verbatim>\<open>Exception\<close>, so an
  \<^verbatim>\<open>except Exception\<close> clause catches every one of them. A function of the program
  returns \<open>Inl e\<close> when the exception \<open>e\<close> leaves it and \<open>Inr v\<close> when it returns \<open>v\<close>.
\<close>

datatype exn =
    FileNotFoundError
  | PermissionError
  | OSError
  | TimeoutExpired
  | UnicodeDecodeError
  | IndexError
  | ValueError
  | OverflowError

definition bnd :: "exn + 'a \<Rightarrow> ('a \<Rightarrow> exn + 'b) \<Rightarrow> exn + 'b" where
  "bnd m f = (case m of Inl e \<Rightarrow> Inl e | Inr x \<Rightarrow> f x)"

subsection \<open>Floats\<close>

text \<open>
  A Python \<^verbatim>\<open>float\<close>: a finite double (a rational number), an infinity or a NaN.
  \<^verbatim>\<open>int()\<close> truncates a finite float and raises on the others.
\<close>

datatype pyfloat = Finite rat | Infinity bool | NaN

definition int_of_float :: "pyfloat \<Rightarrow> exn + int" where
  "int_of_float x =
     (case x of
        Finite q \<Rightarrow> Inr (if 0 \<le> q then \<lfloor>q\<rfloor> else \<lceil>q\<rceil>)
      | Infinity _ \<Rightarrow> Inl OverflowError
      | NaN \<Rightarrow> Inl ValueError)"

subsection \<open>Dictionaries\<close>

text \<open>
  A \<^verbatim>\<open>dict\<close> keeps its keys in insertion order: storing under a key that is present
  replaces the value in place, a new key goes to the end.
\<close>

type_synonym ('k, 'v) dict = "('k \<times> 'v) list"

fun dict_set :: "'k \<Rightarrow> 'v \<Rightarrow> ('k, 'v) dict \<Rightarrow> ('k, 'v) dict" where
  "dict_set k v [] = [(k, v)]"
| "dict_set k v (p # ps) = (if fst p = k then (k, v) # ps else p # dict_set k v ps)"

text \<open>A dict display \<^verbatim>\<open>{k1: v1, ...}\<close> or \<^verbatim>\<open>{**a, **b}\<close> stores its items left to right.\<close>

definition dict_of :: "('k \<times> 'v) list \<Rightarrow> ('k, 'v) dict" where
  "dict_of items = foldl (\<lambda>d (k, v). dict_set k v d) [] items"

definition dict_values :: "('k, 'v) dict \<Rightarrow> 'v list" where
  "dict_values d = map snd d"

section \<open>The environment of one request\<close>

text \<open>What \<^verbatim>\<open>subprocess.run\<close> returns when it returns: a \<^verbatim>\<open>CompletedProcess\<close>.\<close>

record 'a completed =
  returncode :: int
  stdout :: 'a
  stderr :: 'a

text \<open>
  One call of \<^verbatim>\<open>take_screenshot\<close>: the path \<^verbatim>\<open>tempfile.mktemp\<close> returned, what
  \<^verbatim>\<open>subprocess.run\<close> of the capture tool did (it raises \<open>TimeoutExpired\<close> after ten
  seconds, \<open>FileNotFoundError\<close> when the tool is missing), the files that exist
  when it returned or raised, and the exception with which opening and reading the
  file (lines 105-106) and \<^verbatim>\<open>os.unlink\<close> (lines 108 and 114) fail, if they do.
\<close>

record capture_run =
  temp_path :: string
  tool_result :: "exn + bytes completed"
  files_after :: "string \<rightharpoonup> bytes"
  open_error :: "exn option"
  unlink_error :: "exn option"

text \<open>
  Everything outside the program that one request reads: the outcome of each
  external command (keyed by the argument the program passes), of reading and
  converting the first field of \<^verbatim>\<open>/proc/uptime\<close>, and the \<^verbatim>\<open>Server\<close> and \<^verbatim>\<open>Date\<close>
  header values that \<^verbatim>\<open>send_response\<close> adds by itself. \<open>rounded_floordiv\<close> and
  \<open>rounded_mod\<close> stand for the IEEE double arithmetic of \<^verbatim>\<open>//\<close> and \<^verbatim>\<open>%\<close> where it
  rounds; both give a finite double on a finite one.
\<close>

record world =
  systemctl_is_active :: "string \<Rightarrow> exn + pystr completed"
  pgrep_f :: "string \<Rightarrow> exn + bytes completed"
  read_uptime :: "exn + pyfloat"
  xdotool_search :: "string \<Rightarrow> exn + pystr completed"
  import_window :: "pystr \<Rightarrow> capture_run"
  take_screenshot_sh :: capture_run
  version_string :: string
  date_time_string :: string
  rounded_floordiv :: "rat \<Rightarrow> int \<Rightarrow> rat"
  rounded_mod :: "rat \<Rightarrow> int \<Rightarrow> rat"

text \<open>
  \<^verbatim>\<open>x // d\<close> and \<^verbatim>\<open>x % d\<close> on floats, for the divisors 86400 and 3600. On a double
  \<open>0 \<le> x < 2^53\<close> no step of the computation rounds and the results are the exact
  quotient's floor and the exact remainder; elsewhere the result is the rounded one
  the environment gives. On an infinity or a NaN both give NaN.
\<close>

definition float_floordiv :: "world \<Rightarrow> pyfloat \<Rightarrow> int \<Rightarrow> pyfloat" where
  "float_floordiv w x d =
     (case x of
        Finite q \<Rightarrow>
          if 0 \<le> q \<and> q < 2 ^ 53 then Finite (of_int \<lfloor>q / of_int d\<rfloor>)
          else Finite (rounded_floordiv w q d)
      | _ \<Rightarrow> NaN)"

definition float_mod :: "world \<Rightarrow> pyfloat \<Rightarrow> int \<Rightarrow> pyfloat" where
  "float_mod w x d =
     (case x of
        Finite q \<Rightarrow>
          if 0 \<le> q \<and> q < 2 ^ 53 then Finite (q - of_int d * of_int \<lfloor>q / of_int d\<rfloor>)
          else Finite (rounded_mod w q d)
      | _ \<Rightarrow> NaN)"

section \<open>Probe layer\<close>

text \<open>\<^verbatim>\<open>check_systemd_service\<close>, lines 25-36.\<close>

definition check_systemd_service :: "world \<Rightarrow> string \<Rightarrow> exn + bool" where
  "check_systemd_service w service_name =
     (case systemctl_is_active w service_name of
        Inl e \<Rightarrow> Inr False
      | Inr result \<Rightarrow> Inr (strip (stdout result) = py ''active''))"

text \<open>\<^verbatim>\<open>check_process\<close>, lines 38-48.\<close>

definition check_process :: "world \<Rightarrow> string \<Rightarrow> exn + bool" where
  "check_process w pattern =
     (case pgrep_f w pattern of
        Inl e \<Rightarrow> Inr False
      | Inr result \<Rightarrow> Inr (returncode result = 0))"

text \<open>
  \<^verbatim>\<open>get_uptime\<close>, lines 50-61. \<open>uptime_body\<close> is the \<^verbatim>\<open>try\<close> block, \<open>get_uptime\<close> adds the
  \<^verbatim>\<open>except Exception\<close> clause.
\<close>

definition uptime_body :: "world \<Rightarrow> exn + string" where
  "uptime_body w =
     bnd (read_uptime w) (\<lambda>uptime_seconds.
     bnd (int_of_float (float_floordiv w uptime_seconds 86400)) (\<lambda>days.
     bnd (int_of_float (float_floordiv w (float_mod w uptime_seconds 86400) 3600)) (\<lambda>hours.
       if days > 0 then Inr (str_int days @ ''d '' @ str_int hours @ ''h'')
       else Inr (str_int hours @ ''h''))))"

definition get_uptime :: "world \<Rightarrow> exn + string" where
  "get_uptime w =
     (case uptime_body w of
        Inl e \<Rightarrow> Inr ''unknown''
      | Inr s \<Rightarrow> Inr s)"

text \<open>\<^verbatim>\<open>get_window_id\<close>, lines 63-79. The index \<^verbatim>\<open>[0]\<close> stands inside the \<^verbatim>\<open>try\<close>.\<close>

definition get_window_id :: "world \<Rightarrow> string \<Rightarrow> exn + pystr option" where
  "get_window_id w pattern =
     (case xdotool_search w pattern of
        Inl e \<Rightarrow> Inr None
      | Inr result \<Rightarrow>
          if returncode result = 0 \<and> strip (stdout result) \<noteq> [] then
            (case split_on 10 (strip (stdout result)) of
               [] \<Rightarrow> Inr None
             | l # ls \<Rightarrow> Inr (Some l))
          else Inr None)"

section \<open>Screenshot capturer\<close>

text \<open>The truth value of an optional \<^verbatim>\<open>str\<close> or \<^verbatim>\<open>bytes\<close>: \<^verbatim>\<open>None\<close> and the empty one are false.\<close>

definition truthy :: "'a list option \<Rightarrow> bool" where
  "truthy v = (case v of None \<Rightarrow> False | Some s \<Rightarrow> s \<noteq> [])"

type_synonym files = "string \<rightharpoonup> bytes"

definition unlink :: "string \<Rightarrow> files \<Rightarrow> files" where
  "unlink p fs = fs(p := None)"

text \<open>
  Lines 87-102 of \<^verbatim>\<open>take_screenshot\<close>: \<^verbatim>\<open>import -window\<close> runs for a window id that is
  neither \<^verbatim>\<open>None\<close> nor empty, the wrapper script \<^verbatim>\<open>/opt/take-screenshot.sh\<close> otherwise.
\<close>

definition capture_tool :: "world \<Rightarrow> pystr option \<Rightarrow> capture_run" where
  "capture_tool w window_id =
     (case window_id of
        Some wid \<Rightarrow> if wid \<noteq> [] then import_window w wid else take_screenshot_sh w
      | None \<Rightarrow> take_screenshot_sh w)"

text \<open>
  \<^verbatim>\<open>take_screenshot\<close>, lines 81-118: what the call returns, and the files that exist
  when it has returned. \<^verbatim>\<open>mktemp\<close> only names a path; the capture tool creates the
  file. Lines 104-109 are the branch that returns the data, lines 111-115 the one
  that removes a file that is there and returns \<^verbatim>\<open>None\<close>, and the \<^verbatim>\<open>except\<close> clause of
  lines 116-118 returns \<^verbatim>\<open>None\<close> and touches no file; it is reached when the tool run,
  the reading of the file or \<^verbatim>\<open>os.unlink\<close> raises.
\<close>

definition os_unlink :: "capture_run \<Rightarrow> exn + files" where
  "os_unlink run =
     (case unlink_error run of
        Some e \<Rightarrow> Inl e
      | None \<Rightarrow> Inr (unlink (temp_path run) (files_after run)))"

definition take_screenshot :: "world \<Rightarrow> pystr option \<Rightarrow> (exn + bytes option) \<times> files" where
  "take_screenshot w window_id =
     (let run = capture_tool w window_id;
          p = temp_path run;
          fs = files_after run
      in case tool_result run of
           Inl e \<Rightarrow> (Inr None, fs)
         | Inr result \<Rightarrow>
             (case (if returncode result = 0 then fs p else None) of
                Some data \<Rightarrow>
                  (case open_error run of
                     Some e \<Rightarrow> (Inr None, fs)
                   | None \<Rightarrow>
                       (case os_unlink run of
                          Inl e \<Rightarrow> (Inr None, fs)
                        | Inr fs' \<Rightarrow> (Inr (if data \<noteq> [] then Some data else None), fs')))
              | None \<Rightarrow>
                  (case fs p of
                     None \<Rightarrow> (Inr None, fs)
                   | Some old \<Rightarrow>
                       (case os_unlink run of
                          Inl e \<Rightarrow> (Inr None, fs)
                        | Inr fs' \<Rightarrow> (Inr None, fs')))))"

section \<open>JSON\<close>

text \<open>
  \<^verbatim>\<open>json.dumps\<close> with its defaults (\<^verbatim>\<open>ensure_ascii\<close>, separators \<^verbatim>\<open>", "\<close> and \<^verbatim>\<open>": "\<close>) on
  the values the program serialises: strings, ints, bools and dicts of them.
\<close>

datatype json = JString string | JInt int | JBool bool | JObject "(string \<times> json) list"

definition escape_char :: "char \<Rightarrow> string" where
  "escape_char c =
     (let n = (of_char c :: nat) in
      if n = 34 then [CHR 0x5C, CHR 0x22]
      else if n = 92 then [CHR 0x5C, CHR 0x5C]
      else if n = 10 then [CHR 0x5C, CHR ''n'']
      else if n = 13 then [CHR 0x5C, CHR ''r'']
      else if n = 9 then [CHR 0x5C, CHR ''t'']
      else if n = 8 then [CHR 0x5C, CHR ''b'']
      else if n = 12 then [CHR 0x5C, CHR ''f'']
      else if 32 \<le> n \<and> n \<le> 126 then [c]
      else [CHR 0x5C, CHR ''u'', CHR ''0'', CHR ''0'', digit (n div 16), digit (n mod 16)])"

definition quote :: "string \<Rightarrow> string" where
  "quote s = [CHR 0x22] @ concat (map escape_char s) @ [CHR 0x22]"

fun join :: "string \<Rightarrow> string list \<Rightarrow> string" where
  "join sep [] = []"
| "join sep [x] = x"
| "join sep (x # y # ys) = x @ sep @ join sep (y # ys)"

fun dumps :: "json \<Rightarrow> string" where
  "dumps (JString s) = quote s"
| "dumps (JInt i) = str_int i"
| "dumps (JBool b) = (if b then ''true'' else ''false'')"
| "dumps (JObject items) =
     ''{'' @ join '', '' (map (\<lambda>kv. quote (fst kv) @ '': '' @ dumps (snd kv)) items) @ ''}''"

section \<open>Health aggregator and HTTP handler\<close>

record report =
  overall :: string
  systemd :: "(string, bool) dict"
  processes :: "(string, bool) dict"
  running_count :: int
  total_count :: int
  uptime :: string

text \<open>
  The response a handler has written when it returns. \<^verbatim>\<open>send_response\<close> of
  \<^verbatim>\<open>BaseHTTPRequestHandler\<close> writes the status line and adds the \<^verbatim>\<open>Server\<close> and \<^verbatim>\<open>Date\<close>
  headers itself.
\<close>

record response =
  status_code :: nat
  headers :: "(string \<times> string) list"
  body :: bytes

definition send_response :: "world \<Rightarrow> nat \<Rightarrow> response" where
  "send_response w c =
     \<lparr>status_code = c,
      headers = [(''Server'', version_string w), (''Date'', date_time_string w)],
      body = []\<rparr>"

definition send_header :: "string \<Rightarrow> string \<Rightarrow> response \<Rightarrow> response" where
  "send_header k v r = r\<lparr>headers := headers r @ [(k, v)]\<rparr>"

definition wfile_write :: "bytes \<Rightarrow> response \<Rightarrow> response" where
  "wfile_write data r = r\<lparr>body := body r @ data\<rparr>"

text \<open>\<^verbatim>\<open>handle_status\<close>, lines 139-170: the dict \<^verbatim>\<open>response\<close> the handler builds.\<close>

definition status_report :: "world \<Rightarrow> exn + report" where
  "status_report w =
     bnd (check_systemd_service w ''groundwater-connection'') (\<lambda>s1.
     bnd (check_systemd_service w ''groundwater-genie-manager'') (\<lambda>s2.
     bnd (check_systemd_service w ''groundwater-updater'') (\<lambda>s3.
     bnd (check_process w ''kmzero.sh'') (\<lambda>p1.
     bnd (check_process w ''groundwater.sh'') (\<lambda>p2.
     bnd (check_process w ''main.py'') (\<lambda>p3.
       let systemd_services = dict_of
             [(''groundwater-connection'', s1),
              (''groundwater-genie-manager'', s2),
              (''groundwater-updater'', s3)];
           procs = dict_of
             [(''kmzero.sh'', p1),
              (''groundwater.sh'', p2),
              (''main.py'', p3)];
           all_services = dict_of (systemd_services @ procs);
           running = sum_list (map (\<lambda>v. 1) (filter (\<lambda>v. v) (dict_values all_services)));
           total = int (length all_services);
           status = (if running = total then ''healthy''
                     else if running > 0 then ''partial''
                     else ''offline'')
       in bnd (get_uptime w) (\<lambda>up.
            Inr \<lparr>overall = status, systemd = systemd_services, processes = procs,
                 running_count = running, total_count = total, uptime = up\<rparr>)))))))"

definition json_of_report :: "report \<Rightarrow> json" where
  "json_of_report r =
     JObject
       [(''status'', JString (overall r)),
        (''systemd'', JObject (map (\<lambda>kv. (fst kv, JBool (snd kv))) (systemd r))),
        (''processes'', JObject (map (\<lambda>kv. (fst kv, JBool (snd kv))) (processes r))),
        (''running'', JInt (running_count r)),
        (''total'', JInt (total_count r)),
        (''uptime'', JString (uptime r))]"

text \<open>\<^verbatim>\<open>handle_status\<close>, lines 137-176.\<close>

definition handle_status :: "world \<Rightarrow> exn + response" where
  "handle_status w =
     bnd (status_report w) (\<lambda>r.
       Inr (wfile_write (dumps (json_of_report r))
             (send_header ''Access-Control-Allow-Origin'' ''*''
               (send_header ''Content-Type'' ''application/json''
                 (send_response w 200)))))"

text \<open>The 200 response of lines 182-187, 206-211 and 226-231.\<close>

definition png_response :: "world \<Rightarrow> bytes \<Rightarrow> response" where
  "png_response w data =
     wfile_write data
       (send_header ''Cache-Control'' ''no-cache''
         (send_header ''Access-Control-Allow-Origin'' ''*''
           (send_header ''Content-Type'' ''image/png''
             (send_response w 200))))"

text \<open>\<^verbatim>\<open>handle_screenshot\<close>, lines 178-192.\<close>

definition handle_screenshot :: "world \<Rightarrow> exn + response" where
  "handle_screenshot w =
     bnd (fst (take_screenshot w None)) (\<lambda>data.
       if truthy data then Inr (png_response w (the data))
       else
         Inr (wfile_write (dumps (JObject [(''error'', JString ''Failed to take screenshot'')]))
               (send_header ''Content-Type'' ''application/json''
                 (send_response w 500))))"

text \<open>Lines 197-201: the three window searches, each tried only when the one before found nothing.\<close>

definition find_terminal_window :: "world \<Rightarrow> exn + pystr option" where
  "find_terminal_window w =
     bnd (get_window_id w ''kmzero'') (\<lambda>window_id.
     bnd (if \<not> truthy window_id then get_window_id w ''LXTerminal'' else Inr window_id)
       (\<lambda>window_id.
     bnd (if \<not> truthy window_id then get_window_id w ''Terminal'' else Inr window_id)
       (\<lambda>window_id. Inr window_id)))"

text \<open>\<^verbatim>\<open>handle_screenshot_terminal\<close>, lines 194-215.\<close>

definition handle_screenshot_terminal :: "world \<Rightarrow> exn + response" where
  "handle_screenshot_terminal w =
     bnd (find_terminal_window w) (\<lambda>window_id.
       if truthy window_id then
         bnd (fst (take_screenshot w window_id)) (\<lambda>data.
           if truthy data then Inr (png_response w (the data))
           else handle_screenshot w)
       else handle_screenshot w)"

text \<open>Lines 219-221.\<close>

definition find_chromium_window :: "world \<Rightarrow> exn + pystr option" where
  "find_chromium_window w =
     bnd (get_window_id w ''Chromium'') (\<lambda>window_id.
     bnd (if \<not> truthy window_id then get_window_id w ''Chrome'' else Inr window_id)
       (\<lambda>window_id. Inr window_id))"

text \<open>The 404 response of lines 234-239.\<close>

definition chromium_not_running :: "world \<Rightarrow> response" where
  "chromium_not_running w =
     wfile_write (dumps (JObject [(''error'', JString ''Chromium not running'')]))
       (send_header ''Access-Control-Allow-Origin'' ''*''
         (send_header ''Content-Type'' ''application/json''
           (send_response w 404)))"

text \<open>\<^verbatim>\<open>handle_screenshot_chromium\<close>, lines 217-239.\<close>

definition handle_screenshot_chromium :: "world \<Rightarrow> exn + response" where
  "handle_screenshot_chromium w =
     bnd (find_chromium_window w) (\<lambda>window_id.
       if truthy window_id then
         bnd (fst (take_screenshot w window_id)) (\<lambda>data.
           if truthy data then Inr (png_response w (the data))
           else Inr (chromium_not_running w))
       else Inr (chromium_not_running w))"

text \<open>\<^verbatim>\<open>do_GET\<close>, lines 124-135; \<open>path\<close> is \<^verbatim>\<open>self.path\<close>, the request target as sent.\<close>

definition do_GET :: "world \<Rightarrow> string \<Rightarrow> exn + response" where
  "do_GET w path =
     (if path = ''/status'' \<or> path = ''/'' then handle_status w
      else if path = ''/screenshot'' then handle_screenshot w
      else if path = ''/screenshot/terminal'' then handle_screenshot_terminal w
      else if path = ''/screenshot/chromium'' then handle_screenshot_chromium w
      else Inr (send_response w 404))"

section \<open>Sample environments\<close>

text \<open>A capture whose tool is not installed: nothing is written.\<close>

definition tool_missing :: capture_run where
  "tool_missing =
     \<lparr>temp_path = ''/tmp/tmpk3v9x2ab.png'',
      tool_result = Inl FileNotFoundError,
      files_after = Map.empty,
      open_error = None,
      unlink_error = None\<rparr>"

text \<open>A capture that writes the four bytes \<open>PNG!\<close> and exits with 0.\<close>

definition tool_ok :: capture_run where
  "tool_ok =
     \<lparr>temp_path = ''/tmp/tmpk3v9x2ab.png'',
      tool_result = Inr \<lparr>returncode = 0, stdout = [], stderr = []\<rparr>,
      files_after = [''/tmp/tmpk3v9x2ab.png'' \<mapsto> ''PNG!''],
      open_error = None,
      unlink_error = None\<rparr>"

text \<open>A capture that has written its file and then hangs until the ten seconds are over.\<close>

definition tool_hangs :: capture_run where
  "tool_hangs =
     \<lparr>temp_path = ''/tmp/tmpk3v9x2ab.png'',
      tool_result = Inl TimeoutExpired,
      files_after = [''/tmp/tmpk3v9x2ab.png'' \<mapsto> ''PNG!''],
      open_error = None,
      unlink_error = None\<rparr>"

text \<open>A device with no tool installed, no X session and an unreadable uptime counter.\<close>

definition bare_world :: world where
  "bare_world =
     \<lparr>systemctl_is_active = (\<lambda>name. Inl FileNotFoundError),
      pgrep_f = (\<lambda>pattern. Inl FileNotFoundError),
      read_uptime = Inl FileNotFoundError,
      xdotool_search = (\<lambda>pattern. Inl FileNotFoundError),
      import_window = (\<lambda>wid. tool_missing),
      take_screenshot_sh = tool_missing,
      version_string = ''BaseHTTP/0.6 Python/3.11.2'',
      date_time_string = ''Wed, 04 Nov 2026 10:00:00 GMT'',
      rounded_floordiv = (\<lambda>q d. of_int \<lfloor>q / of_int d\<rfloor>),
      rounded_mod = (\<lambda>q d. q - of_int d * of_int \<lfloor>q / of_int d\<rfloor>)\<rparr>"

text \<open>A tool run that exits with \<open>rc\<close> after printing \<open>out\<close>.\<close>

definition exits :: "int \<Rightarrow> string \<Rightarrow> exn + pystr completed" where
  "exits rc out = Inr \<lparr>returncode = rc, stdout = py out, stderr = []\<rparr>"

text \<open>A device whose three services are active and on which \<^verbatim>\<open>pgrep\<close> is missing.\<close>

definition services_up :: world where
  "services_up =
     bare_world\<lparr>systemctl_is_active := (\<lambda>name. exits 0 ''active\<newline>'')\<rparr>"

text \<open>No window search works, but the wrapper script captures the whole screen.\<close>

definition screen_only :: world where
  "screen_only = bare_world\<lparr>take_screenshot_sh := tool_ok\<rparr>"

text \<open>Every window search finds the window 83886087, and no capture tool is installed.\<close>

definition window_found :: world where
  "window_found =
     bare_world\<lparr>xdotool_search := (\<lambda>pattern. exits 0 ''83886087\<newline>'')\<rparr>"

text \<open>Every window search finds the window 83886087, and \<^verbatim>\<open>import\<close> captures it.\<close>

definition window_captured :: world where
  "window_captured =
     bare_world\<lparr>xdotool_search := (\<lambda>pattern. exits 0 ''83886087\<newline>''),
                import_window := (\<lambda>wid. tool_ok)\<rparr>"

section \<open>The probes return\<close>

lemma check_systemd_service_eq:
  "check_systemd_service w n =
     Inr (case systemctl_is_active w n of
            Inl e \<Rightarrow> False
          | Inr r \<Rightarrow> strip (stdout r) = py ''active'')"
  by (simp add: check_systemd_service_def split: sum.splits)

lemma check_process_eq:
  "check_process w p =
     Inr (case pgrep_f w p of Inl e \<Rightarrow> False | Inr r \<Rightarrow> returncode r = 0)"
  by (simp add: check_process_def split: sum.splits)

lemma get_uptime_returns: "\<exists>s. get_uptime w = Inr s"
  by (simp add: get_uptime_def split: sum.splits)

section \<open>The status report\<close>

lemma dict_of_systemd:
  "dict_of [(''groundwater-connection'', s1), (''groundwater-genie-manager'', s2),
            (''groundwater-updater'', s3)] =
   [(''groundwater-connection'', s1), (''groundwater-genie-manager'', s2),
    (''groundwater-updater'', s3)]"
  by (simp add: dict_of_def)

lemma dict_of_processes:
  "dict_of [(''kmzero.sh'', p1), (''groundwater.sh'', p2), (''main.py'', p3)] =
   [(''kmzero.sh'', p1), (''groundwater.sh'', p2), (''main.py'', p3)]"
  by (simp add: dict_of_def)

text \<open>The two key sets are disjoint, so the merge keeps all six items.\<close>

lemma dict_of_all_services:
  "dict_of ([(''groundwater-connection'', s1), (''groundwater-genie-manager'', s2),
             (''groundwater-updater'', s3)] @
            [(''kmzero.sh'', p1), (''groundwater.sh'', p2), (''main.py'', p3)]) =
   [(''groundwater-connection'', s1), (''groundwater-genie-manager'', s2),
    (''groundwater-updater'', s3),
    (''kmzero.sh'', p1), (''groundwater.sh'', p2), (''main.py'', p3)]"
  by (simp add: dict_of_def)

lemma count_true6:
  "sum_list (map (\<lambda>v. 1) (filter (\<lambda>v. v) [s1, s2, s3, p1, p2, p3])) =
     (of_bool s1 + of_bool s2 + of_bool s3 + of_bool p1 + of_bool p2 + of_bool p3 :: int)"
  by simp

lemma classify6:
  "(if (of_bool s1 + of_bool s2 + of_bool s3 + of_bool p1 + of_bool p2 + of_bool p3 :: int) = 6
    then h
    else if (of_bool s1 + of_bool s2 + of_bool s3 + of_bool p1 + of_bool p2 + of_bool p3 :: int) > 0
    then p else off) =
   (if s1 \<and> s2 \<and> s3 \<and> p1 \<and> p2 \<and> p3 then h
    else if s1 \<or> s2 \<or> s3 \<or> p1 \<or> p2 \<or> p3 then p
    else off)"
  by (cases s1; cases s2; cases s3; cases p1; cases p2; cases p3; simp)

lemma status_report_eq:
  assumes "check_systemd_service w ''groundwater-connection'' = Inr s1"
    and "check_systemd_service w ''groundwater-genie-manager'' = Inr s2"
    and "check_systemd_service w ''groundwater-updater'' = Inr s3"
    and "check_process w ''kmzero.sh'' = Inr p1"
    and "check_process w ''groundwater.sh'' = Inr p2"
    and "check_process w ''main.py'' = Inr p3"
    and "get_uptime w = Inr up"
  shows "status_report w =
     Inr \<lparr>overall =
            (if s1 \<and> s2 \<and> s3 \<and> p1 \<and> p2 \<and> p3 then ''healthy''
             else if s1 \<or> s2 \<or> s3 \<or> p1 \<or> p2 \<or> p3 then ''partial''
             else ''offline''),
          systemd = [(''groundwater-connection'', s1), (''groundwater-genie-manager'', s2),
                     (''groundwater-updater'', s3)],
          processes = [(''kmzero.sh'', p1), (''groundwater.sh'', p2), (''main.py'', p3)],
          running_count =
            of_bool s1 + of_bool s2 + of_bool s3 + of_bool p1 + of_bool p2 + of_bool p3,
          total_count = 6,
          uptime = up\<rparr>"
proof -
  have vals:
    "dict_values [(''groundwater-connection'', s1), (''groundwater-genie-manager'', s2),
       (''groundwater-updater'', s3),
       (''kmzero.sh'', p1), (''groundwater.sh'', p2), (''main.py'', p3)] =
     [s1, s2, s3, p1, p2, p3]"
    by (simp add: dict_values_def)
  have len:
    "int (length [(''groundwater-connection'', s1), (''groundwater-genie-manager'', s2),
       (''groundwater-updater'', s3),
       (''kmzero.sh'', p1), (''groundwater.sh'', p2), (''main.py'', p3)]) = 6"
    by simp
  show ?thesis
    unfolding status_report_def
    by (simp only: assms bnd_def sum.case dict_of_systemd dict_of_processes
        dict_of_all_services Let_def vals len count_true6 classify6)
qed

lemma status_report_obtain:
  obtains s1 s2 s3 p1 p2 p3 up where
    "check_systemd_service w ''groundwater-connection'' = Inr s1"
    "check_systemd_service w ''groundwater-genie-manager'' = Inr s2"
    "check_systemd_service w ''groundwater-updater'' = Inr s3"
    "check_process w ''kmzero.sh'' = Inr p1"
    "check_process w ''groundwater.sh'' = Inr p2"
    "check_process w ''main.py'' = Inr p3"
    "get_uptime w = Inr up"
  using check_systemd_service_eq check_process_eq get_uptime_returns by metis

lemma strip_active: "strip (py ''active\<newline>'') = py ''active''"
  by (simp add: strip_def py_def isspace_def)

lemma services_up_checks:
  "check_systemd_service services_up n = Inr True"
  "check_process services_up p = Inr False"
  "get_uptime services_up = Inr ''unknown''"
  by (simp_all add: check_systemd_service_def check_process_def get_uptime_def uptime_body_def
      bnd_def services_up_def bare_world_def exits_def strip_active)

lemma services_up_report:
  "status_report services_up =
     Inr \<lparr>overall = ''partial'',
          systemd = [(''groundwater-connection'', True), (''groundwater-genie-manager'', True),
                     (''groundwater-updater'', True)],
          processes = [(''kmzero.sh'', False), (''groundwater.sh'', False), (''main.py'', False)],
          running_count = 3, total_count = 6, uptime = ''unknown''\<rparr>"
  by (simp add: status_report_eq [OF services_up_checks(1) services_up_checks(1)
        services_up_checks(1) services_up_checks(2) services_up_checks(2) services_up_checks(2)
        services_up_checks(3)])

lemma bare_world_checks:
  "check_systemd_service bare_world n = Inr False"
  "check_process bare_world p = Inr False"
  "get_uptime bare_world = Inr ''unknown''"
  by (simp_all add: check_systemd_service_def check_process_def get_uptime_def uptime_body_def
      bnd_def bare_world_def)

text \<open>
  C1. Whatever the six checks report, each check returns a truth value and
  \<^verbatim>\<open>handle_status\<close> builds a report whose two mappings hold exactly these six results
  under the six fixed keys. \<open>running_count\<close> is the number of true values among the
  six results, which is the number of true values in the two mappings together,
  \<open>total_count\<close> is 6, and \<open>overall\<close> is \<open>healthy\<close> exactly when
  \<open>running_count = total_count\<close>, \<open>offline\<close> exactly when \<open>running_count = 0\<close>, and
  \<open>partial\<close> exactly in the remaining cases.
\<close>

theorem status_report_counts_and_classifies:
  "\<exists>s1 s2 s3 p1 p2 p3 r.
     check_systemd_service w ''groundwater-connection'' = Inr s1 \<and>
     check_systemd_service w ''groundwater-genie-manager'' = Inr s2 \<and>
     check_systemd_service w ''groundwater-updater'' = Inr s3 \<and>
     check_process w ''kmzero.sh'' = Inr p1 \<and>
     check_process w ''groundwater.sh'' = Inr p2 \<and>
     check_process w ''main.py'' = Inr p3 \<and>
     status_report w = Inr r \<and>
     systemd r =
       [(''groundwater-connection'', s1), (''groundwater-genie-manager'', s2),
        (''groundwater-updater'', s3)] \<and>
     processes r = [(''kmzero.sh'', p1), (''groundwater.sh'', p2), (''main.py'', p3)] \<and>
     running_count r = int (length (filter (\<lambda>v. v) [s1, s2, s3, p1, p2, p3])) \<and>
     total_count r = 6 \<and>
     map (\<lambda>kv. Inr (snd kv)) (systemd r) =
       map (\<lambda>kv. check_systemd_service w (fst kv)) (systemd r) \<and>
     map (\<lambda>kv. Inr (snd kv)) (processes r) =
       map (\<lambda>kv. check_process w (fst kv)) (processes r) \<and>
     running_count r =
       int (length (filter snd (systemd r)) + length (filter snd (processes r))) \<and>
     (overall r = ''healthy'' \<longleftrightarrow> running_count r = total_count r) \<and>
     (overall r = ''offline'' \<longleftrightarrow> running_count r = 0) \<and>
     (overall r = ''partial'' \<longleftrightarrow>
        running_count r \<noteq> total_count r \<and> running_count r \<noteq> 0)"
proof -
  obtain s1 s2 s3 p1 p2 p3 up where c:
    "check_systemd_service w ''groundwater-connection'' = Inr s1"
    "check_systemd_service w ''groundwater-genie-manager'' = Inr s2"
    "check_systemd_service w ''groundwater-updater'' = Inr s3"
    "check_process w ''kmzero.sh'' = Inr p1"
    "check_process w ''groundwater.sh'' = Inr p2"
    "check_process w ''main.py'' = Inr p3"
    "get_uptime w = Inr up"
    by (rule status_report_obtain)
  note r = status_report_eq [OF c]
  show ?thesis
    apply (rule exI [of _ s1], rule exI [of _ s2], rule exI [of _ s3])
    apply (rule exI [of _ p1], rule exI [of _ p2], rule exI [of _ p3])
    unfolding r
    using c
    by (cases s1; cases s2; cases s3; cases p1; cases p2; cases p3) simp_all
qed

theorem status_report_counts_and_classifies_witness:
  "\<exists>r. status_report services_up = Inr r \<and> running_count r = 3 \<and> total_count r = 6 \<and>
     overall r = ''partial'' \<and> length (filter snd (systemd r)) = 3 \<and>
     length (filter snd (processes r)) = 0"
  using status_report_counts_and_classifies [of services_up]
  by (simp add: services_up_report)

text \<open>
  C10. Every report has \<open>total_count = 6\<close>: the three systemd keys and the three
  process keys are distinct and the two key sets are disjoint, so the merged mapping
  has six entries. \<open>running_count\<close> lies between 0 and \<open>total_count\<close>, and \<open>overall\<close>
  is one of \<open>healthy\<close>, \<open>partial\<close> and \<open>offline\<close>.
\<close>

theorem status_report_bounds:
  "\<exists>r. status_report w = Inr r \<and>
     total_count r = 6 \<and>
     0 \<le> running_count r \<and> running_count r \<le> total_count r \<and>
     overall r \<in> {''healthy'', ''partial'', ''offline''} \<and>
     map fst (systemd r) =
       [''groundwater-connection'', ''groundwater-genie-manager'', ''groundwater-updater''] \<and>
     map fst (processes r) = [''kmzero.sh'', ''groundwater.sh'', ''main.py''] \<and>
     set (map fst (systemd r)) \<inter> set (map fst (processes r)) = {} \<and>
     total_count r = int (length (systemd r) + length (processes r))"
proof -
  obtain s1 s2 s3 p1 p2 p3 up where c:
    "check_systemd_service w ''groundwater-connection'' = Inr s1"
    "check_systemd_service w ''groundwater-genie-manager'' = Inr s2"
    "check_systemd_service w ''groundwater-updater'' = Inr s3"
    "check_process w ''kmzero.sh'' = Inr p1"
    "check_process w ''groundwater.sh'' = Inr p2"
    "check_process w ''main.py'' = Inr p3"
    "get_uptime w = Inr up"
    by (rule status_report_obtain)
  note r = status_report_eq [OF c]
  show ?thesis
    unfolding r
    by (cases s1; cases s2; cases s3; cases p1; cases p2; cases p3) simp_all
qed

theorem status_report_bounds_witness:
  "\<exists>r. status_report bare_world = Inr r \<and> total_count r = 6 \<and> running_count r = 0 \<and>
     overall r = ''offline''"
proof -
  obtain r where r: "status_report bare_world = Inr r" "total_count r = 6"
    using status_report_bounds [of bare_world] by blast
  from status_report_eq [OF bare_world_checks(1) bare_world_checks(1) bare_world_checks(1)
      bare_world_checks(2) bare_world_checks(2) bare_world_checks(2) bare_world_checks(3)] r
  show ?thesis by simp
qed

section \<open>Uptime\<close>

lemma floor_rat_numeral_div:
  "\<lfloor>(numeral a :: rat) / numeral b\<rfloor> = numeral a div numeral b"
  by (metis floor_divide_of_int_eq of_int_numeral)

lemma floor_div_floor:
  fixes x :: rat
  shows "\<lfloor>x / 86400\<rfloor> = \<lfloor>x / 3600\<rfloor> div 24"
proof (rule floor_unique)
  define m where "m = \<lfloor>x / 3600\<rfloor>"
  have m1: "of_int m \<le> x / 3600" and m2: "x / 3600 < of_int m + 1"
    unfolding m_def using floor_correct [of "x / 3600"] by simp_all
  have k1: "24 * (m div 24) \<le> m" and k2: "m + 1 \<le> 24 * (m div 24 + 1)"
    by presburger+
  have "(of_int (24 * (m div 24)) :: rat) \<le> of_int m"
    using k1 by (simp only: of_int_le_iff)
  with m1 have "(of_int (24 * (m div 24)) :: rat) \<le> x / 3600" by linarith
  then show "of_int (m div 24) \<le> x / 86400" by simp
  have "(of_int (m + 1) :: rat) \<le> of_int (24 * (m div 24 + 1))"
    using k2 by (simp only: of_int_le_iff)
  with m2 have "x / 3600 < of_int (24 * (m div 24 + 1))" by simp
  then show "x / 86400 < of_int (m div 24) + 1" by simp
qed

lemma hours_eq:
  fixes x :: rat
  shows "\<lfloor>(x - 86400 * of_int \<lfloor>x / 86400\<rfloor>) / 3600\<rfloor> = \<lfloor>x / 3600\<rfloor> mod 24"
proof -
  have "(x - 86400 * of_int \<lfloor>x / 86400\<rfloor>) / 3600 = x / 3600 - of_int (24 * \<lfloor>x / 86400\<rfloor>)"
    by (simp add: field_simps)
  then have "\<lfloor>(x - 86400 * of_int \<lfloor>x / 86400\<rfloor>) / 3600\<rfloor> = \<lfloor>x / 3600\<rfloor> - 24 * \<lfloor>x / 86400\<rfloor>"
    by (simp only: floor_diff_of_int)
  also have "\<dots> = \<lfloor>x / 3600\<rfloor> mod 24"
    unfolding floor_div_floor by (simp add: minus_mult_div_eq_mod)
  finally show ?thesis .
qed

lemma int_of_float_of_int: "int_of_float (Finite (of_int k)) = Inr k"
  by (simp add: int_of_float_def)

lemma int_of_float_finite: "\<exists>k. int_of_float (Finite q) = Inr k"
  by (simp add: int_of_float_def)

lemma float_floordiv_finite: "\<exists>a. float_floordiv w (Finite q) d = Finite a"
  by (simp add: float_floordiv_def)

lemma float_mod_finite: "\<exists>a. float_mod w (Finite q) d = Finite a"
  by (simp add: float_mod_def)

lemma remainder_in_range:
  fixes x :: rat
  shows "0 \<le> x - 86400 * of_int \<lfloor>x / 86400\<rfloor> \<and> x - 86400 * of_int \<lfloor>x / 86400\<rfloor> < 2 ^ 53"
proof -
  have "of_int \<lfloor>x / 86400\<rfloor> \<le> x / 86400" "x / 86400 < of_int \<lfloor>x / 86400\<rfloor> + 1"
    using floor_correct [of "x / 86400"] by simp_all
  then have "86400 * of_int \<lfloor>x / 86400\<rfloor> \<le> x" "x < 86400 * of_int \<lfloor>x / 86400\<rfloor> + 86400"
    by (simp_all add: field_simps)
  then show ?thesis by simp
qed

lemma uptime_body_format:
  assumes "read_uptime w = Inr (Finite x)"
  shows "\<exists>days hours. uptime_body w =
     Inr (if 0 < days then str_int days @ ''d '' @ str_int hours @ ''h''
          else str_int hours @ ''h'')"
proof -
  obtain a where a: "float_floordiv w (Finite x) 86400 = Finite a"
    using float_floordiv_finite by blast
  obtain days where days: "int_of_float (Finite a) = Inr days"
    using int_of_float_finite by blast
  obtain b where b: "float_mod w (Finite x) 86400 = Finite b"
    using float_mod_finite by blast
  obtain c where c: "float_floordiv w (Finite b) 3600 = Finite c"
    using float_floordiv_finite by blast
  obtain hours where hours: "int_of_float (Finite c) = Inr hours"
    using int_of_float_finite by blast
  have "uptime_body w =
     Inr (if 0 < days then str_int days @ ''d '' @ str_int hours @ ''h''
          else str_int hours @ ''h'')"
    unfolding uptime_body_def assms by (simp add: bnd_def a b c days hours)
  then show ?thesis by blast
qed

lemma uptime_body_finite:
  assumes "read_uptime w = Inr (Finite x)" and "0 \<le> x" and "x < 2 ^ 53"
  shows "uptime_body w =
     Inr (if 0 < \<lfloor>x / 86400\<rfloor>
          then str_int \<lfloor>x / 86400\<rfloor> @ ''d '' @ str_int (\<lfloor>x / 3600\<rfloor> mod 24) @ ''h''
          else str_int (\<lfloor>x / 3600\<rfloor> mod 24) @ ''h'')"
proof -
  have a: "float_floordiv w (Finite x) 86400 = Finite (of_int \<lfloor>x / 86400\<rfloor>)"
    using assms(2,3) by (simp add: float_floordiv_def)
  have b: "float_mod w (Finite x) 86400 = Finite (x - 86400 * of_int \<lfloor>x / 86400\<rfloor>)"
    using assms(2,3) by (simp add: float_mod_def)
  have c: "float_floordiv w (Finite (x - 86400 * of_int \<lfloor>x / 86400\<rfloor>)) 3600 =
      Finite (of_int (\<lfloor>x / 3600\<rfloor> mod 24))"
    using remainder_in_range [of x] by (simp add: float_floordiv_def hours_eq)
  show ?thesis
    unfolding uptime_body_def assms(1)
    by (simp add: bnd_def a b c int_of_float_of_int)
qed

text \<open>
  C5. When the counter is read as a finite float, \<^verbatim>\<open>get_uptime\<close> returns
  \<^verbatim>\<open>"{days}d {hours}h"\<close> if \<open>days > 0\<close> and \<^verbatim>\<open>"{hours}h"\<close> otherwise, for the two integers
  the code computes. For a value \<open>0 \<le> x < 2^53\<close>, where the float arithmetic does
  not round, \<open>days\<close> is the number of whole days in \<open>x\<close> seconds and \<open>hours\<close> the
  number of whole hours modulo 24. When reading or converting raises, or the value
  is an infinity or a NaN (so that \<^verbatim>\<open>int()\<close> raises), it returns \<^verbatim>\<open>"unknown"\<close>. A counter
  of 90000 seconds gives \<^verbatim>\<open>"1d 1h"\<close>, one of 3600 seconds \<^verbatim>\<open>"1h"\<close>.
\<close>

theorem get_uptime_format:
  "(read_uptime w = Inr (Finite y) \<longrightarrow>
      (\<exists>days hours. get_uptime w =
         Inr (if 0 < days then str_int days @ ''d '' @ str_int hours @ ''h''
              else str_int hours @ ''h''))) \<and>
   (read_uptime w = Inr (Finite x) \<and> 0 \<le> x \<and> x < 2 ^ 53 \<longrightarrow>
      get_uptime w =
        Inr (if 0 < \<lfloor>x / 86400\<rfloor>
             then str_int \<lfloor>x / 86400\<rfloor> @ ''d '' @ str_int (\<lfloor>x / 3600\<rfloor> mod 24) @ ''h''
             else str_int (\<lfloor>x / 3600\<rfloor> mod 24) @ ''h'')) \<and>
   (read_uptime w = Inl e \<longrightarrow> get_uptime w = Inr ''unknown'') \<and>
   (read_uptime w = Inr (Infinity b) \<or> read_uptime w = Inr NaN \<longrightarrow>
      get_uptime w = Inr ''unknown'') \<and>
   (read_uptime w = Inr (Finite 90000) \<longrightarrow> get_uptime w = Inr ''1d 1h'') \<and>
   (read_uptime w = Inr (Finite 3600) \<longrightarrow> get_uptime w = Inr ''1h'')"
proof (intro conjI impI)
  assume "read_uptime w = Inr (Finite y)"
  from uptime_body_format [OF this] obtain days hours where u:
    "uptime_body w =
       Inr (if 0 < days then str_int days @ ''d '' @ str_int hours @ ''h''
            else str_int hours @ ''h'')"
    by blast
  have "get_uptime w =
       Inr (if 0 < days then str_int days @ ''d '' @ str_int hours @ ''h''
            else str_int hours @ ''h'')"
    by (simp only: get_uptime_def u sum.case)
  then show "\<exists>days hours. get_uptime w =
         Inr (if 0 < days then str_int days @ ''d '' @ str_int hours @ ''h''
              else str_int hours @ ''h'')"
    by blast
next
  assume "read_uptime w = Inr (Finite x) \<and> 0 \<le> x \<and> x < 2 ^ 53"
  then have "uptime_body w =
        Inr (if 0 < \<lfloor>x / 86400\<rfloor>
             then str_int \<lfloor>x / 86400\<rfloor> @ ''d '' @ str_int (\<lfloor>x / 3600\<rfloor> mod 24) @ ''h''
             else str_int (\<lfloor>x / 3600\<rfloor> mod 24) @ ''h'')"
    using uptime_body_finite [of w x] by blast
  then show "get_uptime w =
        Inr (if 0 < \<lfloor>x / 86400\<rfloor>
             then str_int \<lfloor>x / 86400\<rfloor> @ ''d '' @ str_int (\<lfloor>x / 3600\<rfloor> mod 24) @ ''h''
             else str_int (\<lfloor>x / 3600\<rfloor> mod 24) @ ''h'')"
    by (simp only: get_uptime_def sum.case)
next
  assume "read_uptime w = Inl e"
  then show "get_uptime w = Inr ''unknown''"
    by (simp add: get_uptime_def uptime_body_def bnd_def)
next
  assume "read_uptime w = Inr (Infinity b) \<or> read_uptime w = Inr NaN"
  then show "get_uptime w = Inr ''unknown''"
    by (auto simp add: get_uptime_def uptime_body_def bnd_def float_floordiv_def
        float_mod_def int_of_float_def)
next
  assume "read_uptime w = Inr (Finite 90000)"
  then show "get_uptime w = Inr ''1d 1h''"
    by (simp add: get_uptime_def uptime_body_finite str_int_def digit_def floor_rat_numeral_div)
next
  assume "read_uptime w = Inr (Finite 3600)"
  then show "get_uptime w = Inr ''1h''"
    by (simp add: get_uptime_def uptime_body_finite str_int_def digit_def floor_rat_numeral_div)
qed

theorem get_uptime_format_witness:
  "get_uptime (bare_world\<lparr>read_uptime := Inr (Finite 200000)\<rparr>) = Inr ''2d 7h'' \<and>
   get_uptime (bare_world\<lparr>read_uptime := Inr (Finite 90000)\<rparr>) = Inr ''1d 1h'' \<and>
   get_uptime (bare_world\<lparr>read_uptime := Inr (Finite 3600)\<rparr>) = Inr ''1h'' \<and>
   get_uptime (bare_world\<lparr>read_uptime := Inr (Finite (4321987 / 100))\<rparr>) = Inr ''12h'' \<and>
   get_uptime (bare_world\<lparr>read_uptime := Inl PermissionError\<rparr>) = Inr ''unknown'' \<and>
   get_uptime (bare_world\<lparr>read_uptime := Inr NaN\<rparr>) = Inr ''unknown''"
  using get_uptime_format [of "bare_world\<lparr>read_uptime := Inr (Finite 200000)\<rparr>" _ 200000]
    get_uptime_format [of "bare_world\<lparr>read_uptime := Inr (Finite 90000)\<rparr>"]
    get_uptime_format [of "bare_world\<lparr>read_uptime := Inr (Finite 3600)\<rparr>"]
    get_uptime_format [of "bare_world\<lparr>read_uptime := Inr (Finite (4321987 / 100))\<rparr>" _
      "4321987 / 100"]
    get_uptime_format [of "bare_world\<lparr>read_uptime := Inl PermissionError\<rparr>" _ _ PermissionError]
    get_uptime_format [of "bare_world\<lparr>read_uptime := Inr NaN\<rparr>"]
  by (simp add: str_int_def digit_def floor_rat_numeral_div)

section \<open>Service check and window search\<close>

text \<open>
  C6, as the code has it. \<^verbatim>\<open>check_systemd_service\<close> never raises. It returns true exactly
  when the query completes (no execution error, no timeout) and its output, stripped
  of surrounding whitespace, is \<^verbatim>\<open>active\<close>; the exit code is not inspected. Every
  execution error and every timeout gives false.
\<close>

theorem check_systemd_service_true_iff:
  "(\<exists>b. check_systemd_service w n = Inr b) \<and>
   (check_systemd_service w n = Inr True \<longleftrightarrow>
      (\<exists>r. systemctl_is_active w n = Inr r \<and> strip (stdout r) = py ''active'')) \<and>
   (\<forall>e. systemctl_is_active w n = Inl e \<longrightarrow> check_systemd_service w n = Inr False)"
  by (cases "systemctl_is_active w n") (auto simp: check_systemd_service_def)

theorem check_systemd_service_true_iff_witness:
  "check_systemd_service services_up ''groundwater-updater'' = Inr True \<and>
   check_systemd_service bare_world ''groundwater-updater'' = Inr False"
proof -
  have "systemctl_is_active services_up ''groundwater-updater'' =
          Inr \<lparr>returncode = 0, stdout = py ''active\<newline>'', stderr = []\<rparr>"
    by (simp add: services_up_def exits_def)
  moreover have "systemctl_is_active bare_world ''groundwater-updater'' = Inl FileNotFoundError"
    by (simp add: bare_world_def)
  ultimately show ?thesis
    using check_systemd_service_true_iff [of services_up "''groundwater-updater''"]
      check_systemd_service_true_iff [of bare_world "''groundwater-updater''"]
    by (simp add: strip_active)
qed

text \<open>
  The claim that a non-zero exit code gives false does not hold: a query that exits
  with 3 after printing \<^verbatim>\<open>active\<close> is reported as active.
\<close>

theorem check_systemd_service_nonzero_exit_counterexample:
  "systemctl_is_active
     (bare_world\<lparr>systemctl_is_active := (\<lambda>name. exits 3 ''active\<newline>'')\<rparr>)
     ''groundwater-updater'' =
     Inr \<lparr>returncode = 3, stdout = py ''active\<newline>'', stderr = []\<rparr> \<and>
   check_systemd_service
     (bare_world\<lparr>systemctl_is_active := (\<lambda>name. exits 3 ''active\<newline>'')\<rparr>)
     ''groundwater-updater'' = Inr True"
  by (simp add: check_systemd_service_def exits_def strip_active)

lemma split_on_first: "\<exists>ls. split_on sep s = takeWhile (\<lambda>c. c \<noteq> sep) s # ls"
  by (induction s) auto

lemma get_window_id_eq:
  "get_window_id w p =
     Inr (case xdotool_search w p of
            Inl e \<Rightarrow> None
          | Inr r \<Rightarrow>
              if returncode r = 0 \<and> strip (stdout r) \<noteq> []
              then Some (takeWhile (\<lambda>c. c \<noteq> 10) (strip (stdout r)))
              else None)"
proof (cases "xdotool_search w p")
  case (Inl e)
  then show ?thesis by (simp add: get_window_id_def)
next
  case (Inr r)
  obtain ls where "split_on 10 (strip (stdout r)) = takeWhile (\<lambda>c. c \<noteq> 10) (strip (stdout r)) # ls"
    using split_on_first by blast
  with Inr show ?thesis by (simp add: get_window_id_def)
qed

lemma dropWhile_snoc_keeps: "\<not> P a \<Longrightarrow> \<exists>u. dropWhile P (xs @ [a]) = u @ [a]"
  by (induction xs) auto

lemma strip_hd: 
  assumes "strip s \<noteq> []"
  shows "\<not> isspace (hd (strip s))"
proof -
  define t where "t = dropWhile isspace s"
  have st: "strip s = rev (dropWhile isspace (rev t))"
    by (simp only: strip_def t_def)
  have t: "t \<noteq> []"
  proof
    assume "t = []"
    with st have "strip s = []" by simp
    with assms show False by simp
  qed
  then have a: "\<not> isspace (hd t)" unfolding t_def by (rule hd_dropWhile)
  from t obtain t' where t': "t = hd t # t'" by (cases t) auto
  have "rev t = rev t' @ [hd t]" by (subst t') simp
  moreover obtain u where "dropWhile isspace (rev t' @ [hd t]) = u @ [hd t]"
    using dropWhile_snoc_keeps [of isspace "hd t" "rev t'"] a by blast
  ultimately have "dropWhile isspace (rev t) = u @ [hd t]" by simp
  with st have "strip s = hd t # rev u" by simp
  with a show ?thesis by simp
qed

lemma isspace_newline: "isspace 10"
  by (simp add: isspace_def)

lemma get_window_id_nonempty:
  assumes "get_window_id w p = Inr (Some wid)"
  shows "wid \<noteq> []"
proof -
  from assms obtain r :: "pystr completed" where r: "strip (stdout r) \<noteq> []"
    "wid = takeWhile (\<lambda>c. c \<noteq> 10) (strip (stdout r))"
    unfolding get_window_id_eq by (auto split: sum.splits if_splits)
  from strip_hd [OF r(1)] isspace_newline have "hd (strip (stdout r)) \<noteq> 10" by metis
  with r show ?thesis by (cases "strip (stdout r)") auto
qed

text \<open>
  C8, as the code has it. \<^verbatim>\<open>get_window_id\<close> never raises. When the search exits with 0
  and its output is not all whitespace, the result is the first line of the output
  after surrounding whitespace has been stripped from the whole output. On a
  non-zero exit, on empty or all-whitespace output, and on every exception (tool
  missing, timeout) the result is \<^verbatim>\<open>None\<close>.
\<close>

theorem get_window_id_first_line_of_stripped:
  "(\<exists>v. get_window_id w p = Inr v) \<and>
   (\<forall>r. xdotool_search w p = Inr r \<and> returncode r = 0 \<and> strip (stdout r) \<noteq> [] \<longrightarrow>
      get_window_id w p = Inr (Some (takeWhile (\<lambda>c. c \<noteq> 10) (strip (stdout r))))) \<and>
   (\<forall>r. xdotool_search w p = Inr r \<and> (returncode r \<noteq> 0 \<or> strip (stdout r) = []) \<longrightarrow>
      get_window_id w p = Inr None) \<and>
   (\<forall>e. xdotool_search w p = Inl e \<longrightarrow> get_window_id w p = Inr None)"
  unfolding get_window_id_eq by (cases "xdotool_search w p") auto

lemma strip_two_ids: "strip (py ''83886087\<newline>83886090\<newline>'') = py ''83886087\<newline>83886090''"
  by (simp add: strip_def py_def isspace_def)

theorem get_window_id_first_line_of_stripped_witness:
  "get_window_id
     (bare_world\<lparr>xdotool_search := (\<lambda>pattern. exits 0 ''83886087\<newline>83886090\<newline>'')\<rparr>)
     ''Chromium'' = Inr (Some (py ''83886087'')) \<and>
   get_window_id
     (bare_world\<lparr>xdotool_search := (\<lambda>pattern. exits 1 [])\<rparr>) ''Chromium'' = Inr None \<and>
   get_window_id bare_world ''Chromium'' = Inr None"
  using get_window_id_first_line_of_stripped
      [of "bare_world\<lparr>xdotool_search := (\<lambda>pattern. exits 0 ''83886087\<newline>83886090\<newline>'')\<rparr>"
        "''Chromium''"]
    get_window_id_first_line_of_stripped
      [of "bare_world\<lparr>xdotool_search := (\<lambda>pattern. exits 1 [])\<rparr>" "''Chromium''"]
    get_window_id_first_line_of_stripped [of bare_world "''Chromium''"]
  by (simp add: exits_def strip_two_ids bare_world_def) (simp add: py_def)

text \<open>
  The result is not always the first line of the output: for the output \<^verbatim>\<open>" 7\n"\<close> the
  first line is \<^verbatim>\<open>" 7"\<close> and the result is \<^verbatim>\<open>"7"\<close>; for the non-empty output \<^verbatim>\<open>"\n"\<close> with
  exit code 0 the result is \<^verbatim>\<open>None\<close>.
\<close>

theorem get_window_id_first_line_counterexample:
  "get_window_id (bare_world\<lparr>xdotool_search := (\<lambda>pattern. exits 0 '' 7\<newline>'')\<rparr>) ''Chromium'' =
     Inr (Some (py ''7'')) \<and>
   takeWhile (\<lambda>c. c \<noteq> 10) (py '' 7\<newline>'') = py '' 7'' \<and>
   get_window_id (bare_world\<lparr>xdotool_search := (\<lambda>pattern. exits 0 ''\<newline>'')\<rparr>) ''Chromium'' =
     Inr None"
  by (simp add: get_window_id_def exits_def strip_def py_def isspace_def)

section \<open>Screenshots\<close>

lemma take_screenshot_cases:
  obtains (none) "fst (take_screenshot w wid) = Inr None"
  | (some) d where "fst (take_screenshot w wid) = Inr (Some d)" "d \<noteq> []"
proof -
  have "fst (take_screenshot w wid) = Inr None \<or>
      (\<exists>d. fst (take_screenshot w wid) = Inr (Some d) \<and> d \<noteq> [])"
    by (simp add: take_screenshot_def Let_def split: sum.splits option.splits)
  then show ?thesis using none some by blast
qed

lemma take_screenshot_data_nonempty:
  "fst (take_screenshot w wid) = Inr (Some d) \<Longrightarrow> d \<noteq> []"
  by (cases w wid rule: take_screenshot_cases) auto

text \<open>
  Whenever the capture tool returns, with any exit code, and neither reading the file
  nor \<^verbatim>\<open>os.unlink\<close> raises, the temporary file is gone.
\<close>

lemma take_screenshot_cleans_up_when_tool_returns:
  assumes "tool_result (capture_tool w wid) = Inr r"
    and "open_error (capture_tool w wid) = None"
    and "unlink_error (capture_tool w wid) = None"
  shows "snd (take_screenshot w wid) (temp_path (capture_tool w wid)) = None"
  using assms
  by (cases "files_after (capture_tool w wid) (temp_path (capture_tool w wid))")
    (simp_all add: take_screenshot_def Let_def os_unlink_def unlink_def)

text \<open>
  C3 asks that the temporary file of a call never exists once \<^verbatim>\<open>take_screenshot\<close> has
  returned. That holds whenever the capture tool returns, with any exit code, and
  reading and removing the file do not raise (the lemma above). It fails when
  \<^verbatim>\<open>subprocess.run\<close> raises: a tool that has written its
  file and then runs into the ten-second timeout leaves the file behind, with and
  without a window id, because the \<^verbatim>\<open>except\<close> clause removes nothing.
\<close>

theorem take_screenshot_timeout_leaves_temp_file:
  "tool_result tool_hangs = Inl TimeoutExpired \<and>
   fst (take_screenshot (bare_world\<lparr>take_screenshot_sh := tool_hangs\<rparr>) None) = Inr None \<and>
   snd (take_screenshot (bare_world\<lparr>take_screenshot_sh := tool_hangs\<rparr>) None)
     ''/tmp/tmpk3v9x2ab.png'' = Some ''PNG!'' \<and>
   fst (take_screenshot (bare_world\<lparr>import_window := (\<lambda>wid. tool_hangs)\<rparr>)
     (Some (py ''83886087''))) = Inr None \<and>
   snd (take_screenshot (bare_world\<lparr>import_window := (\<lambda>wid. tool_hangs)\<rparr>)
     (Some (py ''83886087''))) ''/tmp/tmpk3v9x2ab.png'' = Some ''PNG!''"
  by (simp add: take_screenshot_def capture_tool_def tool_hangs_def py_def)

lemma dumps_failed:
  \<open>dumps (JObject [(''error'', JString ''Failed to take screenshot'')]) =
     ''{"error": "Failed to take screenshot"}''\<close>
  by (simp add: quote_def escape_char_def)

lemma dumps_not_running:
  \<open>dumps (JObject [(''error'', JString ''Chromium not running'')]) =
     ''{"error": "Chromium not running"}''\<close>
  by (simp add: quote_def escape_char_def)

lemma png_response_eq:
  "png_response w d =
     \<lparr>status_code = 200,
      headers = [(''Server'', version_string w), (''Date'', date_time_string w),
                 (''Content-Type'', ''image/png''), (''Access-Control-Allow-Origin'', ''*''),
                 (''Cache-Control'', ''no-cache'')],
      body = d\<rparr>"
  by (simp add: png_response_def send_response_def send_header_def wfile_write_def)

lemma chromium_not_running_eq:
  \<open>chromium_not_running w =
     \<lparr>status_code = 404,
      headers = [(''Server'', version_string w), (''Date'', date_time_string w),
                 (''Content-Type'', ''application/json''),
                 (''Access-Control-Allow-Origin'', ''*'')],
      body = ''{"error": "Chromium not running"}''\<rparr>\<close>
  unfolding chromium_not_running_def dumps_not_running
  by (simp add: send_response_def send_header_def wfile_write_def)

lemma handle_screenshot_eq:
  \<open>handle_screenshot w =
     Inr (case fst (take_screenshot w None) of
            Inr (Some d) \<Rightarrow> png_response w d
          | _ \<Rightarrow>
            \<lparr>status_code = 500,
             headers = [(''Server'', version_string w), (''Date'', date_time_string w),
                        (''Content-Type'', ''application/json'')],
             body = ''{"error": "Failed to take screenshot"}''\<rparr>)\<close>
  unfolding handle_screenshot_def dumps_failed
  by (cases w "None :: pystr option" rule: take_screenshot_cases)
    (simp_all add: bnd_def truthy_def send_response_def send_header_def wfile_write_def)

lemma get_window_id_cases:
  obtains (none) "get_window_id w p = Inr None"
  | (some) wid where "get_window_id w p = Inr (Some wid)" "wid \<noteq> []"
proof -
  obtain v where v: "get_window_id w p = Inr v"
    unfolding get_window_id_eq by blast
  show ?thesis
  proof (cases v)
    case None
    with v show ?thesis by (simp add: none)
  next
    case (Some wid)
    with v get_window_id_nonempty [of w p wid] show ?thesis by (simp add: some)
  qed
qed

lemma find_terminal_window_first:
  "get_window_id w ''kmzero'' = Inr (Some a) \<Longrightarrow> find_terminal_window w = Inr (Some a)"
  using get_window_id_nonempty [of w "''kmzero''" a]
  by (simp add: find_terminal_window_def bnd_def truthy_def)

lemma find_terminal_window_second:
  "get_window_id w ''kmzero'' = Inr None \<Longrightarrow> get_window_id w ''LXTerminal'' = Inr (Some b) \<Longrightarrow>
     find_terminal_window w = Inr (Some b)"
  using get_window_id_nonempty [of w "''LXTerminal''" b]
  by (simp add: find_terminal_window_def bnd_def truthy_def)

lemma find_terminal_window_third:
  "get_window_id w ''kmzero'' = Inr None \<Longrightarrow> get_window_id w ''LXTerminal'' = Inr None \<Longrightarrow>
     find_terminal_window w = get_window_id w ''Terminal''"
  by (cases w "''Terminal''" rule: get_window_id_cases)
    (simp_all add: find_terminal_window_def bnd_def truthy_def)

lemma find_terminal_window_cases:
  obtains (none) "find_terminal_window w = Inr None"
  | (some) wid where "find_terminal_window w = Inr (Some wid)" "wid \<noteq> []"
proof (cases w "''kmzero''" rule: get_window_id_cases)
  case (some a)
  then show ?thesis using find_terminal_window_first that(2) by blast
next
  case none
  note k = this
  show ?thesis
  proof (cases w "''LXTerminal''" rule: get_window_id_cases)
    case (some b)
    then show ?thesis using find_terminal_window_second [OF k] that(2) by blast
  next
    case none
    note l = this
    show ?thesis
      by (cases w "''Terminal''" rule: get_window_id_cases)
        (use find_terminal_window_third [OF k l] that in auto)
  qed
qed

lemma find_chromium_window_first:
  "get_window_id w ''Chromium'' = Inr (Some a) \<Longrightarrow> find_chromium_window w = Inr (Some a)"
  using get_window_id_nonempty [of w "''Chromium''" a]
  by (simp add: find_chromium_window_def bnd_def truthy_def)

lemma find_chromium_window_second:
  "get_window_id w ''Chromium'' = Inr None \<Longrightarrow>
     find_chromium_window w = get_window_id w ''Chrome''"
  by (cases w "''Chrome''" rule: get_window_id_cases)
    (simp_all add: find_chromium_window_def bnd_def truthy_def)

lemma find_chromium_window_cases:
  obtains (none) "find_chromium_window w = Inr None"
  | (some) wid where "find_chromium_window w = Inr (Some wid)" "wid \<noteq> []"
proof (cases w "''Chromium''" rule: get_window_id_cases)
  case (some a)
  then show ?thesis using find_chromium_window_first that(2) by blast
next
  case none
  note k = this
  show ?thesis
    by (cases w "''Chrome''" rule: get_window_id_cases)
      (use find_chromium_window_second [OF k] that in auto)
qed

lemma terminal_not_found:
  "find_terminal_window w = Inr None \<Longrightarrow> handle_screenshot_terminal w = handle_screenshot w"
  by (simp add: handle_screenshot_terminal_def bnd_def truthy_def)

lemma terminal_capture_failed:
  "find_terminal_window w = Inr (Some wid) \<Longrightarrow> fst (take_screenshot w (Some wid)) = Inr None \<Longrightarrow>
     handle_screenshot_terminal w = handle_screenshot w"
  by (simp add: handle_screenshot_terminal_def bnd_def truthy_def)

lemma terminal_captured:
  assumes "find_terminal_window w = Inr (Some wid)"
    and "fst (take_screenshot w (Some wid)) = Inr (Some d)"
  shows "handle_screenshot_terminal w = Inr (png_response w d)"
proof -
  have "wid \<noteq> []"
    using assms(1) by (cases w rule: find_terminal_window_cases) auto
  moreover have "d \<noteq> []"
    using assms(2) by (rule take_screenshot_data_nonempty)
  ultimately show ?thesis
    using assms by (simp add: handle_screenshot_terminal_def bnd_def truthy_def)
qed

lemma chromium_not_found:
  "find_chromium_window w = Inr None \<Longrightarrow>
     handle_screenshot_chromium w = Inr (chromium_not_running w)"
  by (simp add: handle_screenshot_chromium_def bnd_def truthy_def)

lemma chromium_capture_failed:
  "find_chromium_window w = Inr (Some wid) \<Longrightarrow> fst (take_screenshot w (Some wid)) = Inr None \<Longrightarrow>
     handle_screenshot_chromium w = Inr (chromium_not_running w)"
  by (simp add: handle_screenshot_chromium_def bnd_def truthy_def)

lemma chromium_captured:
  assumes "find_chromium_window w = Inr (Some wid)"
    and "fst (take_screenshot w (Some wid)) = Inr (Some d)"
  shows "handle_screenshot_chromium w = Inr (png_response w d)"
proof -
  have "wid \<noteq> []"
    using assms(1) by (cases w rule: find_chromium_window_cases) auto
  moreover have "d \<noteq> []"
    using assms(2) by (rule take_screenshot_data_nonempty)
  ultimately show ?thesis
    using assms by (simp add: handle_screenshot_chromium_def bnd_def truthy_def)
qed

lemma do_GET_routes:
  "do_GET w ''/'' = handle_status w"
  "do_GET w ''/status'' = handle_status w"
  "do_GET w ''/screenshot'' = handle_screenshot w"
  "do_GET w ''/screenshot/terminal'' = handle_screenshot_terminal w"
  "do_GET w ''/screenshot/chromium'' = handle_screenshot_chromium w"
  by (simp_all add: do_GET_def)

section \<open>Routes\<close>

text \<open>
  C9. A request whose path is none of \<^verbatim>\<open>/\<close>, \<^verbatim>\<open>/status\<close>, \<^verbatim>\<open>/screenshot\<close>,
  \<^verbatim>\<open>/screenshot/terminal\<close> and \<^verbatim>\<open>/screenshot/chromium\<close> is answered with status 404 and an
  empty body; the response carries only the two headers \<^verbatim>\<open>send_response\<close> adds.
\<close>

theorem do_GET_unknown_path:
  "path \<notin> {''/'', ''/status'', ''/screenshot'', ''/screenshot/terminal'',
             ''/screenshot/chromium''} \<Longrightarrow>
     do_GET w path =
       Inr \<lparr>status_code = 404,
            headers = [(''Server'', version_string w), (''Date'', date_time_string w)],
            body = []\<rparr>"
  by (simp add: do_GET_def send_response_def)

theorem do_GET_unknown_path_witness:
  "do_GET bare_world ''/foo'' =
     Inr \<lparr>status_code = 404,
          headers = [(''Server'', ''BaseHTTP/0.6 Python/3.11.2''),
                     (''Date'', ''Wed, 04 Nov 2026 10:00:00 GMT'')],
          body = []\<rparr> \<and>
   (\<exists>r. do_GET services_up ''/status?verbose=1'' = Inr r \<and> status_code r = 404 \<and> body r = [])"
  using do_GET_unknown_path [of "''/foo''" bare_world]
    do_GET_unknown_path [of "''/status?verbose=1''" services_up]
  by (simp add: bare_world_def)

lemma find_terminal_window_Some_iff:
  "find_terminal_window w = Inr (Some wid) \<longleftrightarrow>
     get_window_id w ''kmzero'' = Inr (Some wid) \<or>
     get_window_id w ''kmzero'' = Inr None \<and> get_window_id w ''LXTerminal'' = Inr (Some wid) \<or>
     get_window_id w ''kmzero'' = Inr None \<and> get_window_id w ''LXTerminal'' = Inr None \<and>
       get_window_id w ''Terminal'' = Inr (Some wid)"
proof (cases w "''kmzero''" rule: get_window_id_cases)
  case (some a)
  then show ?thesis using find_terminal_window_first [of w a] by auto
next
  case none
  note k = this
  show ?thesis
  proof (cases w "''LXTerminal''" rule: get_window_id_cases)
    case (some b)
    then show ?thesis using k find_terminal_window_second [of w b] by auto
  next
    case none
    then show ?thesis using k find_terminal_window_third [of w] by auto
  qed
qed

lemma find_chromium_window_Some_iff:
  "find_chromium_window w = Inr (Some wid) \<longleftrightarrow>
     get_window_id w ''Chromium'' = Inr (Some wid) \<or>
     get_window_id w ''Chromium'' = Inr None \<and> get_window_id w ''Chrome'' = Inr (Some wid)"
proof (cases w "''Chromium''" rule: get_window_id_cases)
  case (some a)
  then show ?thesis using find_chromium_window_first [of w a] by auto
next
  case none
  then show ?thesis using find_chromium_window_second [of w] by auto
qed

text \<open>
  C2, as the code has it. When all three window searches fail, or the capture of the
  window found fails, \<^verbatim>\<open>/screenshot/terminal\<close> answers exactly as \<^verbatim>\<open>/screenshot\<close> does: 200
  with the whole-screen image when that capture yields data, and 500 with the JSON
  error when it does not. When the window found is captured, the answer is 200 with
  its image. The status is 200 or 500. The window is the first one found in the
  order \<^verbatim>\<open>kmzero\<close>, \<^verbatim>\<open>LXTerminal\<close>, \<^verbatim>\<open>Terminal\<close>.
\<close>

theorem terminal_screenshot_falls_back:
  \<open>(get_window_id w ''kmzero'' = Inr None \<and> get_window_id w ''LXTerminal'' = Inr None \<and>
    get_window_id w ''Terminal'' = Inr None \<longrightarrow>
      do_GET w ''/screenshot/terminal'' = do_GET w ''/screenshot'') \<and>
   (\<forall>wid. find_terminal_window w = Inr (Some wid) \<and>
      fst (take_screenshot w (Some wid)) = Inr None \<longrightarrow>
      do_GET w ''/screenshot/terminal'' = do_GET w ''/screenshot'') \<and>
   (\<forall>wid d. find_terminal_window w = Inr (Some wid) \<and>
      fst (take_screenshot w (Some wid)) = Inr (Some d) \<longrightarrow>
      (\<exists>r. do_GET w ''/screenshot/terminal'' = Inr r \<and> status_code r = 200 \<and> body r = d \<and>
         (''Content-Type'', ''image/png'') \<in> set (headers r))) \<and>
   (\<forall>d. fst (take_screenshot w None) = Inr (Some d) \<longrightarrow>
      (\<exists>r. do_GET w ''/screenshot'' = Inr r \<and> status_code r = 200 \<and> body r = d \<and>
         (''Content-Type'', ''image/png'') \<in> set (headers r))) \<and>
   (fst (take_screenshot w None) = Inr None \<longrightarrow>
      (\<exists>r. do_GET w ''/screenshot'' = Inr r \<and> status_code r = 500 \<and>
         body r = ''{"error": "Failed to take screenshot"}'')) \<and>
   (\<exists>r. do_GET w ''/screenshot/terminal'' = Inr r \<and>
      (status_code r = 200 \<or> status_code r = 500)) \<and>
   (\<forall>wid. find_terminal_window w = Inr (Some wid) \<longleftrightarrow>
      get_window_id w ''kmzero'' = Inr (Some wid) \<or>
      get_window_id w ''kmzero'' = Inr None \<and> get_window_id w ''LXTerminal'' = Inr (Some wid) \<or>
      get_window_id w ''kmzero'' = Inr None \<and> get_window_id w ''LXTerminal'' = Inr None \<and>
        get_window_id w ''Terminal'' = Inr (Some wid))\<close>
proof (intro conjI allI impI)
  fix wid
  show "find_terminal_window w = Inr (Some wid) \<longleftrightarrow>
      get_window_id w ''kmzero'' = Inr (Some wid) \<or>
      get_window_id w ''kmzero'' = Inr None \<and> get_window_id w ''LXTerminal'' = Inr (Some wid) \<or>
      get_window_id w ''kmzero'' = Inr None \<and> get_window_id w ''LXTerminal'' = Inr None \<and>
        get_window_id w ''Terminal'' = Inr (Some wid)"
    by (rule find_terminal_window_Some_iff)
next
  assume "get_window_id w ''kmzero'' = Inr None \<and> get_window_id w ''LXTerminal'' = Inr None \<and>
    get_window_id w ''Terminal'' = Inr None"
  then have "find_terminal_window w = Inr None"
    using find_terminal_window_third [of w] by simp
  then show "do_GET w ''/screenshot/terminal'' = do_GET w ''/screenshot''"
    by (simp only: do_GET_routes terminal_not_found)
next
  fix wid
  assume "find_terminal_window w = Inr (Some wid) \<and>
      fst (take_screenshot w (Some wid)) = Inr None"
  then show "do_GET w ''/screenshot/terminal'' = do_GET w ''/screenshot''"
    by (simp only: do_GET_routes terminal_capture_failed)
next
  fix wid d
  assume "find_terminal_window w = Inr (Some wid) \<and>
      fst (take_screenshot w (Some wid)) = Inr (Some d)"
  then have "do_GET w ''/screenshot/terminal'' = Inr (png_response w d)"
    by (simp only: do_GET_routes terminal_captured)
  then show "\<exists>r. do_GET w ''/screenshot/terminal'' = Inr r \<and> status_code r = 200 \<and> body r = d \<and>
         (''Content-Type'', ''image/png'') \<in> set (headers r)"
    by (simp add: png_response_eq)
next
  fix d
  assume "fst (take_screenshot w None) = Inr (Some d)"
  then show "\<exists>r. do_GET w ''/screenshot'' = Inr r \<and> status_code r = 200 \<and> body r = d \<and>
         (''Content-Type'', ''image/png'') \<in> set (headers r)"
    by (simp add: do_GET_routes handle_screenshot_eq png_response_eq)
next
  assume "fst (take_screenshot w None) = Inr None"
  then show \<open>\<exists>r. do_GET w ''/screenshot'' = Inr r \<and> status_code r = 500 \<and>
         body r = ''{"error": "Failed to take screenshot"}''\<close>
    by (simp add: do_GET_routes handle_screenshot_eq)
next
  have s: "\<exists>r. handle_screenshot w = Inr r \<and> (status_code r = 200 \<or> status_code r = 500)"
    unfolding handle_screenshot_eq
    by (cases w "None :: pystr option" rule: take_screenshot_cases)
      (simp_all add: png_response_eq)
  show "\<exists>r. do_GET w ''/screenshot/terminal'' = Inr r \<and>
      (status_code r = 200 \<or> status_code r = 500)"
  proof (cases w rule: find_terminal_window_cases)
    case none
    with s show ?thesis by (simp only: do_GET_routes terminal_not_found)
  next
    case (some wid)
    show ?thesis
    proof (cases w "Some wid" rule: take_screenshot_cases)
      case none
      with some s show ?thesis by (simp only: do_GET_routes terminal_capture_failed)
    next
      case (some d)
      with \<open>find_terminal_window w = Inr (Some wid)\<close>
      have "do_GET w ''/screenshot/terminal'' = Inr (png_response w d)"
        by (simp only: do_GET_routes terminal_captured)
      then show ?thesis by (simp add: png_response_eq)
    qed
  qed
qed

lemma bare_world_finds_no_window: "get_window_id bare_world p = Inr None"
  by (simp add: get_window_id_def bare_world_def)

lemma screen_only_finds_no_window: "get_window_id screen_only p = Inr None"
  by (simp add: get_window_id_def screen_only_def bare_world_def)

lemma strip_one_id: "strip (py ''83886087\<newline>'') = py ''83886087''"
  by (simp add: strip_def py_def isspace_def)

lemma window_found_finds: "get_window_id window_found p = Inr (Some (py ''83886087''))"
  unfolding get_window_id_eq
  by (simp add: window_found_def bare_world_def exits_def strip_one_id) (simp add: py_def)

lemma window_captured_finds: "get_window_id window_captured p = Inr (Some (py ''83886087''))"
  unfolding get_window_id_eq
  by (simp add: window_captured_def bare_world_def exits_def strip_one_id) (simp add: py_def)

lemma bare_world_captures_nothing: "fst (take_screenshot bare_world wid) = Inr None"
  by (cases wid)
    (simp_all add: take_screenshot_def capture_tool_def bare_world_def tool_missing_def)

lemma screen_only_captures_screen: "fst (take_screenshot screen_only None) = Inr (Some ''PNG!'')"
  by (simp add: take_screenshot_def capture_tool_def screen_only_def tool_ok_def Let_def
      os_unlink_def)

lemma window_found_captures_nothing: "fst (take_screenshot window_found wid) = Inr None"
  by (cases wid)
    (simp_all add: take_screenshot_def capture_tool_def window_found_def bare_world_def
      tool_missing_def)

lemma window_captured_captures:
  "fst (take_screenshot window_captured (Some (py ''83886087''))) = Inr (Some ''PNG!'')"
  by (simp add: take_screenshot_def capture_tool_def window_captured_def tool_ok_def py_def
      Let_def os_unlink_def)

theorem terminal_screenshot_falls_back_witness:
  "do_GET screen_only ''/screenshot/terminal'' = do_GET screen_only ''/screenshot'' \<and>
   (\<exists>r. do_GET screen_only ''/screenshot'' = Inr r \<and> status_code r = 200 \<and> body r = ''PNG!'') \<and>
   (\<exists>r. do_GET window_captured ''/screenshot/terminal'' = Inr r \<and> status_code r = 200 \<and>
      body r = ''PNG!'')"
proof -
  note s = terminal_screenshot_falls_back [of screen_only]
  note c = terminal_screenshot_falls_back [of window_captured]
  have "do_GET screen_only ''/screenshot/terminal'' = do_GET screen_only ''/screenshot''"
    using s by (simp add: screen_only_finds_no_window)
  moreover have "\<exists>r. do_GET screen_only ''/screenshot'' = Inr r \<and> status_code r = 200 \<and>
      body r = ''PNG!''"
    using s screen_only_captures_screen by blast
  moreover have "\<exists>r. do_GET window_captured ''/screenshot/terminal'' = Inr r \<and>
      status_code r = 200 \<and> body r = ''PNG!''"
    using c find_terminal_window_first [OF window_captured_finds] window_captured_captures
    by blast
  ultimately show ?thesis by simp
qed

text \<open>
  \<^verbatim>\<open>/screenshot/terminal\<close> does answer with a status other than 200: with no window
  found and no capture tool working, the whole-screen path it falls back to answers
  500.
\<close>

theorem terminal_screenshot_500_counterexample:
  \<open>do_GET bare_world ''/screenshot/terminal'' =
     Inr \<lparr>status_code = 500,
          headers = [(''Server'', ''BaseHTTP/0.6 Python/3.11.2''),
                     (''Date'', ''Wed, 04 Nov 2026 10:00:00 GMT''),
                     (''Content-Type'', ''application/json'')],
          body = ''{"error": "Failed to take screenshot"}''\<rparr>\<close>
proof -
  have "find_terminal_window bare_world = Inr None"
    using find_terminal_window_third [of bare_world] by (simp add: bare_world_finds_no_window)
  then have "do_GET bare_world ''/screenshot/terminal'' = handle_screenshot bare_world"
    by (simp only: do_GET_routes terminal_not_found)
  then show ?thesis
    by (simp add: handle_screenshot_eq bare_world_captures_nothing) (simp add: bare_world_def)
qed

text \<open>
  C4, as the code has it. \<^verbatim>\<open>/screenshot/chromium\<close> answers 404 with the JSON body
  \<^verbatim>\<open>{"error": "Chromium not running"}\<close> when neither the \<^verbatim>\<open>Chromium\<close> nor the \<^verbatim>\<open>Chrome\<close>
  search finds a window, and also when a window is found and its capture yields no
  data. It answers 200 with the image exactly when a window is found and captured.
  The window is the one found for \<^verbatim>\<open>Chromium\<close>, or else the one found for \<^verbatim>\<open>Chrome\<close>.
\<close>

theorem chromium_screenshot_404_iff:
  \<open>(get_window_id w ''Chromium'' = Inr None \<and> get_window_id w ''Chrome'' = Inr None \<longrightarrow>
      do_GET w ''/screenshot/chromium'' =
        Inr \<lparr>status_code = 404,
             headers = [(''Server'', version_string w), (''Date'', date_time_string w),
                        (''Content-Type'', ''application/json''),
                        (''Access-Control-Allow-Origin'', ''*'')],
             body = ''{"error": "Chromium not running"}''\<rparr>) \<and>
   (\<forall>wid. find_chromium_window w = Inr (Some wid) \<and>
      fst (take_screenshot w (Some wid)) = Inr None \<longrightarrow>
      do_GET w ''/screenshot/chromium'' =
        Inr \<lparr>status_code = 404,
             headers = [(''Server'', version_string w), (''Date'', date_time_string w),
                        (''Content-Type'', ''application/json''),
                        (''Access-Control-Allow-Origin'', ''*'')],
             body = ''{"error": "Chromium not running"}''\<rparr>) \<and>
   (\<forall>wid d. find_chromium_window w = Inr (Some wid) \<and>
      fst (take_screenshot w (Some wid)) = Inr (Some d) \<longrightarrow>
      (\<exists>r. do_GET w ''/screenshot/chromium'' = Inr r \<and> status_code r = 200 \<and> body r = d \<and>
         (''Content-Type'', ''image/png'') \<in> set (headers r))) \<and>
   (\<exists>r. do_GET w ''/screenshot/chromium'' = Inr r \<and>
      (status_code r = 200 \<or> status_code r = 404) \<and>
      (status_code r = 404 \<longleftrightarrow>
         \<not> (\<exists>wid d. find_chromium_window w = Inr (Some wid) \<and>
              fst (take_screenshot w (Some wid)) = Inr (Some d)))) \<and>
   (\<forall>wid. find_chromium_window w = Inr (Some wid) \<longleftrightarrow>
      get_window_id w ''Chromium'' = Inr (Some wid) \<or>
      get_window_id w ''Chromium'' = Inr None \<and> get_window_id w ''Chrome'' = Inr (Some wid))\<close>
proof (intro conjI allI impI)
  fix wid
  show "find_chromium_window w = Inr (Some wid) \<longleftrightarrow>
      get_window_id w ''Chromium'' = Inr (Some wid) \<or>
      get_window_id w ''Chromium'' = Inr None \<and> get_window_id w ''Chrome'' = Inr (Some wid)"
    by (rule find_chromium_window_Some_iff)
next
  assume "get_window_id w ''Chromium'' = Inr None \<and> get_window_id w ''Chrome'' = Inr None"
  then have "find_chromium_window w = Inr None"
    using find_chromium_window_second [of w] by simp
  then show \<open>do_GET w ''/screenshot/chromium'' =
        Inr \<lparr>status_code = 404,
             headers = [(''Server'', version_string w), (''Date'', date_time_string w),
                        (''Content-Type'', ''application/json''),
                        (''Access-Control-Allow-Origin'', ''*'')],
             body = ''{"error": "Chromium not running"}''\<rparr>\<close>
    by (simp only: do_GET_routes chromium_not_found chromium_not_running_eq)
next
  fix wid
  assume "find_chromium_window w = Inr (Some wid) \<and>
      fst (take_screenshot w (Some wid)) = Inr None"
  then show \<open>do_GET w ''/screenshot/chromium'' =
        Inr \<lparr>status_code = 404,
             headers = [(''Server'', version_string w), (''Date'', date_time_string w),
                        (''Content-Type'', ''application/json''),
                        (''Access-Control-Allow-Origin'', ''*'')],
             body = ''{"error": "Chromium not running"}''\<rparr>\<close>
    by (simp only: do_GET_routes chromium_capture_failed chromium_not_running_eq)
next
  fix wid d
  assume "find_chromium_window w = Inr (Some wid) \<and>
      fst (take_screenshot w (Some wid)) = Inr (Some d)"
  then have "do_GET w ''/screenshot/chromium'' = Inr (png_response w d)"
    by (simp only: do_GET_routes chromium_captured)
  then show "\<exists>r. do_GET w ''/screenshot/chromium'' = Inr r \<and> status_code r = 200 \<and> body r = d \<and>
         (''Content-Type'', ''image/png'') \<in> set (headers r)"
    by (simp add: png_response_eq)
next
  show "\<exists>r. do_GET w ''/screenshot/chromium'' = Inr r \<and>
      (status_code r = 200 \<or> status_code r = 404) \<and>
      (status_code r = 404 \<longleftrightarrow>
         \<not> (\<exists>wid d. find_chromium_window w = Inr (Some wid) \<and>
              fst (take_screenshot w (Some wid)) = Inr (Some d)))"
  proof (cases w rule: find_chromium_window_cases)
    case none
    then show ?thesis
      by (simp add: do_GET_routes chromium_not_found chromium_not_running_eq)
  next
    case (some wid)
    show ?thesis
    proof (cases w "Some wid" rule: take_screenshot_cases)
      case none
      with some show ?thesis
        by (simp add: do_GET_routes chromium_capture_failed chromium_not_running_eq)
    next
      case (some d)
      with \<open>find_chromium_window w = Inr (Some wid)\<close>
      have "do_GET w ''/screenshot/chromium'' = Inr (png_response w d)"
        by (simp only: do_GET_routes chromium_captured)
      with some \<open>find_chromium_window w = Inr (Some wid)\<close> show ?thesis
        by (simp add: png_response_eq)
    qed
  qed
qed

theorem chromium_screenshot_404_iff_witness:
  \<open>do_GET bare_world ''/screenshot/chromium'' =
     Inr \<lparr>status_code = 404,
          headers = [(''Server'', ''BaseHTTP/0.6 Python/3.11.2''),
                     (''Date'', ''Wed, 04 Nov 2026 10:00:00 GMT''),
                     (''Content-Type'', ''application/json''),
                     (''Access-Control-Allow-Origin'', ''*'')],
          body = ''{"error": "Chromium not running"}''\<rparr> \<and>
   (\<exists>r. do_GET window_captured ''/screenshot/chromium'' = Inr r \<and> status_code r = 200 \<and>
      body r = ''PNG!'')\<close>
proof -
  note b = chromium_screenshot_404_iff [of bare_world]
  note c = chromium_screenshot_404_iff [of window_captured]
  have \<open>do_GET bare_world ''/screenshot/chromium'' =
     Inr \<lparr>status_code = 404,
          headers = [(''Server'', ''BaseHTTP/0.6 Python/3.11.2''),
                     (''Date'', ''Wed, 04 Nov 2026 10:00:00 GMT''),
                     (''Content-Type'', ''application/json''),
                     (''Access-Control-Allow-Origin'', ''*'')],
          body = ''{"error": "Chromium not running"}''\<rparr>\<close>
    using b by (simp add: bare_world_finds_no_window) (simp add: bare_world_def)
  moreover have "\<exists>r. do_GET window_captured ''/screenshot/chromium'' = Inr r \<and>
      status_code r = 200 \<and> body r = ''PNG!''"
    using c find_chromium_window_first [OF window_captured_finds] window_captured_captures
    by blast
  ultimately show ?thesis by simp
qed

text \<open>
  The 404 is not limited to the case that no window is found: here the \<^verbatim>\<open>Chromium\<close>
  search finds a window, its capture fails, and the answer is the same 404.
\<close>

theorem chromium_screenshot_404_counterexample:
  \<open>get_window_id window_found ''Chromium'' = Inr (Some (py ''83886087'')) \<and>
   do_GET window_found ''/screenshot/chromium'' =
     Inr \<lparr>status_code = 404,
          headers = [(''Server'', ''BaseHTTP/0.6 Python/3.11.2''),
                     (''Date'', ''Wed, 04 Nov 2026 10:00:00 GMT''),
                     (''Content-Type'', ''application/json''),
                     (''Access-Control-Allow-Origin'', ''*'')],
          body = ''{"error": "Chromium not running"}''\<rparr>\<close>
proof -
  have "find_chromium_window window_found = Inr (Some (py ''83886087''))"
    by (rule find_chromium_window_first [OF window_found_finds])
  then have "do_GET window_found ''/screenshot/chromium'' = Inr (chromium_not_running window_found)"
    by (simp only: do_GET_routes chromium_capture_failed [OF _ window_found_captures_nothing])
  then show ?thesis
    by (simp add: chromium_not_running_eq window_found_finds)
      (simp add: window_found_def bare_world_def)
qed

section \<open>The CORS header\<close>

lemma handle_status_eq:
  "\<exists>rep. status_report w = Inr rep \<and>
     handle_status w =
       Inr \<lparr>status_code = 200,
            headers = [(''Server'', version_string w), (''Date'', date_time_string w),
                       (''Content-Type'', ''application/json''),
                       (''Access-Control-Allow-Origin'', ''*'')],
            body = dumps (json_of_report rep)\<rparr>"
proof -
  obtain s1 s2 s3 p1 p2 p3 up where c:
    "check_systemd_service w ''groundwater-connection'' = Inr s1"
    "check_systemd_service w ''groundwater-genie-manager'' = Inr s2"
    "check_systemd_service w ''groundwater-updater'' = Inr s3"
    "check_process w ''kmzero.sh'' = Inr p1"
    "check_process w ''groundwater.sh'' = Inr p2"
    "check_process w ''main.py'' = Inr p3"
    "get_uptime w = Inr up"
    by (rule status_report_obtain)
  note r = status_report_eq [OF c]
  show ?thesis
    unfolding handle_status_def r
    by (simp add: bnd_def send_response_def send_header_def wfile_write_def)
qed

lemma cors_png: "(''Access-Control-Allow-Origin'', ''*'') \<in> set (headers (png_response w d))"
  by (simp add: png_response_eq)

lemma handle_screenshot_cases:
  obtains (png) d where "handle_screenshot w = Inr (png_response w d)"
  | (failed) r where "handle_screenshot w = Inr r" "status_code r = 500"
  unfolding handle_screenshot_eq
  by (cases w "None :: pystr option" rule: take_screenshot_cases) simp_all

lemma handle_screenshot_terminal_cases:
  obtains (png) d where "handle_screenshot_terminal w = Inr (png_response w d)"
  | (failed) r where "handle_screenshot_terminal w = Inr r" "status_code r = 500"
proof (cases w rule: find_terminal_window_cases)
  case none
  then show ?thesis
    using that by (cases w rule: handle_screenshot_cases) (simp_all add: terminal_not_found)
next
  case (some wid)
  note f = this(1)
  show ?thesis
  proof (cases w "Some wid" rule: take_screenshot_cases)
    case none
    then show ?thesis
      using that f
      by (cases w rule: handle_screenshot_cases) (simp_all add: terminal_capture_failed)
  next
    case (some d)
    then show ?thesis using that(1) terminal_captured [OF f] by blast
  qed
qed

lemma handle_screenshot_chromium_cases:
  obtains (png) d where "handle_screenshot_chromium w = Inr (png_response w d)"
  | (not_running) "handle_screenshot_chromium w = Inr (chromium_not_running w)"
proof (cases w rule: find_chromium_window_cases)
  case none
  then show ?thesis using that(2) chromium_not_found by blast
next
  case (some wid)
  note f = this(1)
  show ?thesis
  proof (cases w "Some wid" rule: take_screenshot_cases)
    case none
    then show ?thesis using that(2) chromium_capture_failed [OF f] by blast
  next
    case (some d)
    then show ?thesis using that(1) chromium_captured [OF f] by blast
  qed
qed

text \<open>
  C7, as the code has it. Every request is answered. Every response with status 200,
  on every route, and every response of \<^verbatim>\<open>/screenshot/chromium\<close>, its 404 included,
  carries \<^verbatim>\<open>Access-Control-Allow-Origin: *\<close>. The 404 for an unrecognised path does not
  carry it.
\<close>

theorem cors_header_on_200_and_chromium:
  "\<exists>r. do_GET w path = Inr r \<and>
     (status_code r = 200 \<longrightarrow> (''Access-Control-Allow-Origin'', ''*'') \<in> set (headers r)) \<and>
     (path = ''/screenshot/chromium'' \<longrightarrow>
        (''Access-Control-Allow-Origin'', ''*'') \<in> set (headers r)) \<and>
     (path \<notin> {''/'', ''/status'', ''/screenshot'', ''/screenshot/terminal'',
                ''/screenshot/chromium''} \<longrightarrow>
        (''Access-Control-Allow-Origin'', ''*'') \<notin> set (headers r))"
proof -
  consider (status) "path = ''/status'' \<or> path = ''/''"
    | (screen) "path = ''/screenshot''"
    | (terminal) "path = ''/screenshot/terminal''"
    | (chromium) "path = ''/screenshot/chromium''"
    | (other) "path \<notin> {''/'', ''/status'', ''/screenshot'', ''/screenshot/terminal'',
                ''/screenshot/chromium''}"
    by auto
  then show ?thesis
  proof cases
    case status
    obtain rep where "handle_status w =
       Inr \<lparr>status_code = 200,
            headers = [(''Server'', version_string w), (''Date'', date_time_string w),
                       (''Content-Type'', ''application/json''),
                       (''Access-Control-Allow-Origin'', ''*'')],
            body = dumps (json_of_report rep)\<rparr>"
      using handle_status_eq by blast
    with status show ?thesis by (auto simp: do_GET_routes)
  next
    case screen
    show ?thesis
      by (cases w rule: handle_screenshot_cases) (simp_all add: screen do_GET_routes cors_png)
  next
    case terminal
    show ?thesis
      by (cases w rule: handle_screenshot_terminal_cases)
        (simp_all add: terminal do_GET_routes cors_png)
  next
    case chromium
    show ?thesis
      by (cases w rule: handle_screenshot_chromium_cases)
        (simp_all add: chromium do_GET_routes cors_png chromium_not_running_eq)
  next
    case other
    then show ?thesis by (simp add: do_GET_def send_response_def)
  qed
qed

theorem cors_header_on_200_and_chromium_witness:
  "(\<exists>r. do_GET screen_only ''/screenshot'' = Inr r \<and> status_code r = 200 \<and>
      (''Access-Control-Allow-Origin'', ''*'') \<in> set (headers r)) \<and>
   (\<exists>r. do_GET bare_world ''/screenshot/chromium'' = Inr r \<and>
      (''Access-Control-Allow-Origin'', ''*'') \<in> set (headers r)) \<and>
   (\<exists>r. do_GET bare_world ''/foo'' = Inr r \<and>
      (''Access-Control-Allow-Origin'', ''*'') \<notin> set (headers r))"
proof -
  have "\<exists>r. do_GET screen_only ''/screenshot'' = Inr r \<and> status_code r = 200"
    by (simp add: do_GET_routes handle_screenshot_eq screen_only_captures_screen png_response_eq)
  then have "\<exists>r. do_GET screen_only ''/screenshot'' = Inr r \<and> status_code r = 200 \<and>
      (''Access-Control-Allow-Origin'', ''*'') \<in> set (headers r)"
    using cors_header_on_200_and_chromium [of screen_only "''/screenshot''"] by auto
  moreover have "\<exists>r. do_GET bare_world ''/screenshot/chromium'' = Inr r \<and>
      (''Access-Control-Allow-Origin'', ''*'') \<in> set (headers r)"
    using cors_header_on_200_and_chromium [of bare_world "''/screenshot/chromium''"] by auto
  moreover have "\<exists>r. do_GET bare_world ''/foo'' = Inr r \<and>
      (''Access-Control-Allow-Origin'', ''*'') \<notin> set (headers r)"
    using cors_header_on_200_and_chromium [of bare_world "''/foo''"] by auto
  ultimately show ?thesis by simp
qed

text \<open>
  Two responses without the header: the 404 for the path \<^verbatim>\<open>/foo\<close>, and the 500 of
  \<^verbatim>\<open>/screenshot\<close> when the capture fails.
\<close>

theorem cors_header_missing_counterexample:
  "(case do_GET bare_world ''/foo'' of
      Inl e \<Rightarrow> False
    | Inr r \<Rightarrow> status_code r = 404 \<and>
        (''Access-Control-Allow-Origin'', ''*'') \<notin> set (headers r)) \<and>
   (case do_GET bare_world ''/screenshot'' of
      Inl e \<Rightarrow> False
    | Inr r \<Rightarrow> status_code r = 500 \<and>
        (''Access-Control-Allow-Origin'', ''*'') \<notin> set (headers r))"
  by (simp add: do_GET_def send_response_def handle_screenshot_eq bare_world_captures_nothing)

end
